theory Spec2Isabelle
  imports Main
begin

section \<open>Selection and the overlap predicate\<close>

text \<open>
  The editor selection is read through \<open>selection.ranges\<close>; every range carries the
  offsets \<open>from\<close> and \<open>to\<close>. Offsets are JavaScript numbers holding integers; the
  source computes \<open>node.from - 1\<close>, so they are modelled as \<open>int\<close>.
\<close>

record srange =
  rfrom :: int
  rto :: int

text \<open>
  \<^verbatim>\<open>
  function selectionAndRangeOverlap(selection, rangeFrom, rangeTo) {
      for (const range of selection.ranges) {
          if (range.from <= rangeTo && range.to >= rangeFrom) { return true; }
      }
      return false;
  }
  \<close>
\<close>

fun selectionAndRangeOverlap :: "srange list \<Rightarrow> int \<Rightarrow> int \<Rightarrow> bool" where
  "selectionAndRangeOverlap [] rangeFrom rangeTo = False"
| "selectionAndRangeOverlap (r # ranges) rangeFrom rangeTo =
     (if rfrom r \<le> rangeTo \<and> rto r \<ge> rangeFrom then True
      else selectionAndRangeOverlap ranges rangeFrom rangeTo)"

section \<open>Lines and inline fields\<close>

text \<open>
  The Field Scanner (\<open>extractInlineFields\<close>, \<open>extractFullLineField\<close>) is an external
  collaborator. An \<open>InlineField\<close> has the offsets \<open>start\<close>, \<open>startValue\<close> and \<open>end\<close>
  within its line and a \<open>wrapping\<close>, which is a string for wrapped fields and
  undefined (\<open>None\<close>) for full-line fields.
\<close>

datatype wrapping = RoundBracket | SquareBracket | EmojiShorthand

record InlineField =
  fkey :: string
  fvalue :: string
  fstart :: int
  fstartValue :: int
  fend :: int
  fwrapping :: "wrapping option"

record Line =
  lfrom :: int
  ltext :: string

text \<open>
  The current revision (\<open>src/ui/lp-render.ts\<close>, second document):
  \<^verbatim>\<open>
  fieldRenderInfo(view, line, field) {
      const isSelected = selectionAndRangeOverlap(view.state.selection,
                             line.from+field.start, line.from+field.end);
      return { render: !(this.livepreview && isSelected) };
  }
  \<close>
\<close>

definition fieldRenderInfo :: "bool \<Rightarrow> srange list \<Rightarrow> Line \<Rightarrow> InlineField \<Rightarrow> bool" where
  "fieldRenderInfo livepreview selection line field =
     (let isSelected = selectionAndRangeOverlap selection
                         (lfrom line + fstart field) (lfrom line + fend field)
      in \<not> (livepreview \<and> isSelected))"


section \<open>Elements and widgets\<close>

text \<open>
  An HTML element is modelled by what the plugin writes to it: its class list and its
  content. The content is empty, a literal text (\<open>el.innerText = result\<close>), a value
  handed to the external \<open>renderValue\<close>, or still owed by a promise: \<open>Deferred\<close> holds
  how the promise of an awaiting script settles (\<open>Inl\<close> the rejection, \<open>Inr\<close> the
  value).
\<close>

datatype 'v content = Empty | InnerText string | Rendered 'v | Deferred "string + 'v"

record 'v element =
  classes :: "string list"
  content :: "'v content"

definition addClass :: "string \<Rightarrow> 'v element \<Rightarrow> 'v element" where
  "addClass c e = (if c \<in> set (classes e) then e else e\<lparr>classes := classes e @ [c]\<rparr>)"

definition removeClass :: "string \<Rightarrow> 'v element \<Rightarrow> 'v element" where
  "removeClass c e = e\<lparr>classes := removeAll c (classes e)\<rparr>"

definition addClasses :: "string list \<Rightarrow> 'v element \<Rightarrow> 'v element" where
  "addClasses cs e = foldl (\<lambda>e' c. addClass c e') e cs"

text \<open>
  What the element shows once a pending promise has settled: the \<open>then\<close> callback renders
  a fulfilled value; nothing is registered for a rejection.
\<close>

fun settled :: "'v content \<Rightarrow> 'v content" where
  "settled (Deferred (Inr v)) = Rendered v"
| "settled (Deferred (Inl e)) = Empty"
| "settled c = c"

record 'v InlineWidget =
  cssClasses :: "string list"
  sourceString :: string
  el :: "'v element"

text \<open>
  \<^verbatim>\<open>
  eq(other: InlineWidget): boolean {
      if (other.sourceString === this.sourceString) {
          // change CSS classes without redrawing the element
          for (let value of other.cssClasses) {
              if (!this.cssClasses.includes(value)) { this.el.removeClass(value); }
              else { this.el.addClass(value); }
          }
          return true;
      }
      return false;
  }
  \<close>
  The result is the returned boolean and the state of \<open>this.el\<close> afterwards.
\<close>

definition InlineWidget_eq :: "'v InlineWidget \<Rightarrow> 'v InlineWidget \<Rightarrow> bool \<times> 'v element" where
  "InlineWidget_eq this other =
     (if sourceString other = sourceString this
      then (True, foldl (\<lambda>e v. if v \<notin> set (cssClasses this) then removeClass v e
                                 else addClass v e)
                        (el this) (cssClasses other))
      else (False, el this))"

definition toDOM :: "'v InlineWidget \<Rightarrow> 'v element" where
  "toDOM this = addClasses (cssClasses this) (el this)"

section \<open>Decorations and the Decoration Store\<close>

text \<open>
  A decoration is a replacement by a widget (\<open>Decoration.replace\<close>, here always with
  \<open>inclusive: false\<close>) or a styling mark (\<open>Decoration.mark\<close>) with its class and its
  \<open>inclusive\<close> flag; a range attaches one to the offsets \<open>from\<close> and \<open>to\<close>.
\<close>

datatype 'v decoration = Replace "'v InlineWidget" | Mark string bool

record 'v drange =
  dfrom :: int
  dto :: int
  dvalue :: "'v decoration"

fun isReplace :: "'v decoration \<Rightarrow> bool" where
  "isReplace (Replace w) = True"
| "isReplace (Mark c i) = False"

text \<open>
  The store is the editor library's range set, an external collaborator, modelled as the
  list of its ranges in store order with the operations the plugin calls:
  \<^item> \<open>set.between(from, to, f)\<close> calls \<open>f\<close> for the ranges that touch \<open>[from, to]\<close>,
    both ends inclusive;
  \<^item> \<open>set.update({filterFrom, filterTo, filter})\<close> applies \<open>filter\<close> to the ranges
    that touch \<open>[filterFrom, filterTo]\<close> and keeps the others; the plugin's filter is
    constantly false;
  \<^item> \<open>set.update({add, sort})\<close> merges the added ranges into the set by start offset,
    after sorting them when \<open>sort\<close> is set;
  \<^item> \<open>Decoration.none\<close> is the empty set, \<open>Decoration.set(ranges, true)\<close> the sorted one.
\<close>

definition touches :: "'v drange \<Rightarrow> int \<Rightarrow> int \<Rightarrow> bool" where
  "touches d a b \<longleftrightarrow> dfrom d \<le> b \<and> dto d \<ge> a"

definition between :: "'v drange list \<Rightarrow> int \<Rightarrow> int \<Rightarrow> 'v drange list" where
  "between decos a b = filter (\<lambda>d. touches d a b) decos"

definition update_filter_false :: "'v drange list \<Rightarrow> int \<Rightarrow> int \<Rightarrow> 'v drange list" where
  "update_filter_false decos filterFrom filterTo =
     filter (\<lambda>d. \<not> touches d filterFrom filterTo) decos"

fun merge_add :: "'v drange list \<Rightarrow> 'v drange list \<Rightarrow> 'v drange list" where
  "merge_add [] add = add"
| "merge_add (c # cs) [] = c # cs"
| "merge_add (c # cs) (a # as) =
     (if dfrom c \<ge> dfrom a then a # merge_add (c # cs) as
      else c # merge_add cs (a # as))"

definition update_add :: "'v drange list \<Rightarrow> 'v drange list \<Rightarrow> bool \<Rightarrow> 'v drange list" where
  "update_add decos add do_sort = merge_add decos (if do_sort then sort_key dfrom add else add)"

definition Decoration_none :: "'v drange list" where
  "Decoration_none = []"

definition Decoration_set :: "'v drange list \<Rightarrow> 'v drange list" where
  "Decoration_set ranges = sort_key dfrom ranges"

section \<open>Syntax nodes and the plugin state\<close>

text \<open>
  A syntax node has its offsets and the token-class property of its type, a
  space-separated string or undefined.
\<close>

record SyntaxNode =
  nfrom :: int
  nto :: int
  tokenClass :: "string option"

fun split_on :: "char \<Rightarrow> string \<Rightarrow> string list" where
  "split_on c [] = [[]]"
| "split_on c (x # xs) =
     (if x = c then [] # split_on c xs
      else (case split_on c xs of w # ws \<Rightarrow> (x # w) # ws | [] \<Rightarrow> [[x]]))"

definition properties :: "SyntaxNode \<Rightarrow> string set" where
  "properties node = (case tokenClass node of None \<Rightarrow> {} | Some s \<Rightarrow> set (split_on CHR '' '' s))"

record 'v plugin =
  decorations :: "'v drange list"
  livepreview :: bool

text \<open>
  \<^verbatim>\<open>
  removeFieldDecorator(line, field) {
      this.decorations.between(line.from+field.start, line.from+field.end, (from, to, _value) => {
          this.decorations = this.decorations.update({
              filterFrom: from, filterTo: to, filter: (_from, _to, _value) => false });
      });
  }
  removeQueryDecorator(node) {
      this.decorations.between(node.from - 1, node.to + 1, (from, to, _value) => { ...same... });
  }
  \<close>
  \<open>between\<close> runs over the set it was called on while the callback replaces
  \<open>this.decorations\<close> by a filtered copy for each range found.
\<close>

definition removeFieldDecorator :: "Line \<Rightarrow> InlineField \<Rightarrow> 'v plugin \<Rightarrow> 'v plugin" where
  "removeFieldDecorator line field this =
     foldl (\<lambda>this' d. this'\<lparr>decorations := update_filter_false (decorations this') (dfrom d) (dto d)\<rparr>)
           this
           (between (decorations this) (lfrom line + fstart field) (lfrom line + fend field))"

definition removeQueryDecorator :: "SyntaxNode \<Rightarrow> 'v plugin \<Rightarrow> 'v plugin" where
  "removeQueryDecorator node this =
     foldl (\<lambda>this' d. this'\<lparr>decorations := update_filter_false (decorations this') (dfrom d) (dto d)\<rparr>)
           this
           (between (decorations this) (nfrom node - 1) (nto node + 1))"

section \<open>The editor view and the plugin's environment\<close>

text \<open>
  Strings: \<open>startsWith\<close>, \<open>includes\<close> (here \<open>includes_str\<close>), \<open>trim\<close> and the document slice
  \<open>view.state.sliceDoc(from, to)\<close>. A string is a list of characters with codes below
  256. \<open>String.prototype.trim\<close> strips white space and line terminators from both ends;
  among these characters they are the codes 9 to 13, 32 and 160 (the no-break space).
\<close>

definition startsWith :: "string \<Rightarrow> string \<Rightarrow> bool" where
  "startsWith text p \<longleftrightarrow> take (length p) text = p"

fun includes_str :: "string \<Rightarrow> string \<Rightarrow> bool" where
  "includes_str [] sub = (sub = [])"
| "includes_str (c # cs) sub = (startsWith (c # cs) sub \<or> includes_str cs sub)"

definition isWhitespace :: "char \<Rightarrow> bool" where
  "isWhitespace c \<longleftrightarrow>
     c \<in> {CHR '' '', CHR 0x09, CHR 0x0A, CHR 0x0B, CHR 0x0C, CHR 0x0D, CHR 0xA0}"

definition trim :: "string \<Rightarrow> string" where
  "trim s = rev (dropWhile isWhitespace (rev (dropWhile isWhitespace s)))"

definition sliceDoc :: "string \<Rightarrow> int \<Rightarrow> int \<Rightarrow> string" where
  "sliceDoc d a b = take (nat (b - a)) (drop (nat a) d)"

text \<open>
  For each visible range \<open>{from, to}\<close> the host gives the lines numbered from
  \<open>lineAt(from)\<close> to \<open>lineAt(to)\<close> and the nodes that \<open>syntaxTree(...).iterate\<close> enters
  between \<open>from\<close> and \<open>to\<close>, in order.
\<close>

record vrange =
  vlines :: "Line list"
  vnodes :: "SyntaxNode list"

record EditorView =
  doc :: string
  selection :: "srange list"
  editorLivePreviewField :: bool
  visibleRanges :: "vrange list"

record DataviewSettings =
  inlineQueryPrefix :: string
  inlineJsQueryPrefix :: string
  enableInlineDataview :: bool
  enableInlineDataviewJs :: bool

text \<open>
  The closure of \<open>inlinePlugin(app, index, settings, api)\<close> and the imported
  collaborators:
  \<^item> \<open>activeFile\<close>: the path of \<open>app.workspace.getActiveFile()\<close>, or none;
  \<^item> \<open>initialized\<close>: \<open>index.initialized\<close>;
  \<^item> \<open>parseField code\<close>: the result of \<open>tryOrPropogate(() => parseField(code))\<close>,
    \<open>Inl\<close> its error when not successful;
  \<^item> \<open>executeInline field path\<close>: the result of
    \<open>tryOrPropogate(() => executeInline(field, path, index, settings))\<close>;
  \<^item> \<open>showField\<close>: the string a parsed field gives inside a template literal;
  \<^item> \<open>evalInContext script path\<close>: \<open>eval\<close> of a synchronous script, \<open>Inl\<close> the
    exception it throws;
  \<^item> \<open>evalInContextAsync script path\<close>: \<open>eval\<close> of the wrapped asynchronous script,
    \<open>Inl\<close> an exception thrown before a promise is returned, \<open>Inr\<close> how the returned
    promise settles.
\<close>

record ('e, 'v) env =
  activeFile :: "string option"
  initialized :: bool
  settings :: DataviewSettings
  extractInlineFields :: "string \<Rightarrow> InlineField list"
  extractFullLineField :: "string \<Rightarrow> InlineField option"
  parseField :: "string \<Rightarrow> string + 'e"
  executeInline :: "'e \<Rightarrow> string \<Rightarrow> string + 'v"
  showField :: "'e \<Rightarrow> string"
  evalInContext :: "string \<Rightarrow> string \<Rightarrow> string + 'v"
  evalInContextAsync :: "string \<Rightarrow> string \<Rightarrow> string + (string + 'v)"

section \<open>Query widgets\<close>

definition getCssClasses :: "string set \<Rightarrow> string list" where
  "getCssClasses props =
     (if ''strong'' \<in> props then [''cm-strong''] else []) @
     (if ''em'' \<in> props then [''cm-em''] else []) @
     (if ''highlight'' \<in> props then [''cm-highlight''] else []) @
     (if ''strikethrough'' \<in> props then [''cm-strikethrough''] else []) @
     (if ''comment'' \<in> props then [''cm-comment''] else [])"

definition PREAMBLE :: string where
  "PREAMBLE = ''const dataview=this;const dv=this;''"

definition quote :: "string \<Rightarrow> string" where
  "quote s = [CHR 0x27] @ s @ [CHR 0x27]"

text \<open>
  \<open>queryContent\<close> is the branch of \<open>createQueryWidget\<close> that fills \<open>code\<close> and the
  element, for a text that starts with one of the two prefixes:
  \<^verbatim>\<open>
  } else if (isQuery&&!settings.enableInlineDataview || isJsQuery&&!settings.enableInlineDataviewJs) {
      result = "(disabled; enable in settings)";
      el.innerText = result;
  } else if (isQuery) {
      code = text.substring(settings.inlineQueryPrefix.length).trim();
      const field = tryOrPropogate(() => parseField(code));
      if (!field.successful) {
          result = `Dataview (inline field '${code}'): ${field.error}`;
          el.innerText = result;
      } else {
          const fieldValue = field.value;
          const intermediateResult = tryOrPropogate(() =>
              executeInline(fieldValue, currentFile.path, index, settings));
          if (!intermediateResult.successful) {
              result = `Dataview (for inline query '${fieldValue}'): ${intermediateResult.error}`;
              el.innerText = result;
          } else {
              const { value } = intermediateResult;
              result = value;
              renderValue(result, el, currentFile.path, this.component, settings);
          }
      }
  } else if (isJsQuery) {
      code = text.substring(settings.inlineJsQueryPrefix.length).trim();
      try {
          ...
          if (code.includes("await")) {
              (evalInContext("(async () => { " + PREAMBLE + code + " })()") as Promise<any>).then(
                  (result: any) => { renderValue(result, el, currentFile.path, this.component, settings); });
          } else {
              result = evalInContext(PREAMBLE + code);
              renderValue(result, el, currentFile.path, this.component, settings);
          }
          ...
      } catch (e) {
          result = `Dataview (for inline JS query '${code}'): ${e}`;
          el.innerText = result;
      }
  }
  \<close>
\<close>

definition queryContent ::
  "('e, 'v) env \<Rightarrow> string \<Rightarrow> string \<Rightarrow> string \<times> 'v content" where
  "queryContent E text currentFile =
     (let isQuery = startsWith text (inlineQueryPrefix (settings E));
          isJsQuery = startsWith text (inlineJsQueryPrefix (settings E))
      in if isQuery \<and> \<not> enableInlineDataview (settings E)
            \<or> isJsQuery \<and> \<not> enableInlineDataviewJs (settings E)
         then ([], InnerText ''(disabled; enable in settings)'')
         else if isQuery
         then (let code = trim (drop (length (inlineQueryPrefix (settings E))) text)
               in case parseField E code of
                    Inl err \<Rightarrow>
                      (code, InnerText (''Dataview (inline field '' @ quote code @ ''): '' @ err))
                  | Inr fieldValue \<Rightarrow>
                      (case executeInline E fieldValue currentFile of
                         Inl err \<Rightarrow>
                           (code, InnerText (''Dataview (for inline query ''
                                             @ quote (showField E fieldValue) @ ''): '' @ err))
                       | Inr v \<Rightarrow> (code, Rendered v)))
         else (let code = trim (drop (length (inlineJsQueryPrefix (settings E))) text)
               in if includes_str code ''await''
                  then (case evalInContextAsync E (''(async () => { '' @ PREAMBLE @ code @ '' })()'')
                               currentFile of
                          Inl e \<Rightarrow>
                            (code, InnerText (''Dataview (for inline JS query ''
                                              @ quote code @ ''): '' @ e))
                        | Inr promise \<Rightarrow> (code, Deferred promise))
                  else (case evalInContext E (PREAMBLE @ code) currentFile of
                          Inl e \<Rightarrow>
                            (code, InnerText (''Dataview (for inline JS query ''
                                              @ quote code @ ''): '' @ e))
                        | Inr v \<Rightarrow> (code, Rendered v))))"

text \<open>
  \<^verbatim>\<open>
  createQueryWidget(node, view, currentFile) {
      // safety net against unclosed inline code
      if (view.state.sliceDoc(node.to, node.to + 1) === "\n") { return; }
      const text = view.state.sliceDoc(node.from, node.to);
      ...
      const el = createSpan({ cls: ["dataview", "dataview-inline"] });
      const isQuery = text.startsWith(settings.inlineQueryPrefix);
      const isJsQuery = text.startsWith(settings.inlineJsQueryPrefix);
      if (!isQuery && !isJsQuery) { return; }
      else ...
      const classes = getCssClasses(props);
      return Decoration.replace({ widget: new InlineWidget(classes, code, el, view),
                 inclusive: false, block: false }).range(node.from - 1, node.to + 1);
  }
  \<close>
\<close>

definition createQueryWidget ::
  "('e, 'v) env \<Rightarrow> EditorView \<Rightarrow> SyntaxNode \<Rightarrow> string \<Rightarrow> 'v drange option" where
  "createQueryWidget E view node currentFile =
     (if sliceDoc (doc view) (nto node) (nto node + 1) = [CHR 0x0A] then None
      else let text = sliceDoc (doc view) (nfrom node) (nto node)
           in if \<not> startsWith text (inlineQueryPrefix (settings E))
                 \<and> \<not> startsWith text (inlineJsQueryPrefix (settings E))
              then None
              else (case queryContent E text currentFile of
                      (code, c) \<Rightarrow>
                        Some \<lparr>dfrom = nfrom node - 1, dto = nto node + 1,
                              dvalue = Replace \<lparr>cssClasses = getCssClasses (properties node),
                                                sourceString = code,
                                                el = \<lparr>classes = [''dataview'', ''dataview-inline''],
                                                       content = c\<rparr>\<rparr>\<rparr>))"

section \<open>Field decorations\<close>

text \<open>
  \<^verbatim>\<open>
  createFieldDecoratorLivePreview(view, line, field): Range<Decoration>[] {
      console.error(new Error("Method not implemented."))
      return [];
  }
  \<close>
\<close>

definition createFieldDecoratorLivePreview ::
  "EditorView \<Rightarrow> Line \<Rightarrow> InlineField \<Rightarrow> 'v drange list" where
  "createFieldDecoratorLivePreview view line field = []"

text \<open>
  \<open>createFieldDecoratorSourceMode\<close> marks the parts of a field for styling:
  \<^verbatim>\<open>
  let openBracketPos = line.from+field.start;     // '['
  let keyPos = line.from+field.start+1;           // '   key   '
  let colonPos = line.from+field.startValue-2;    // '::'
  let valuePos = line.from+field.startValue;      // '   value   '
  let closeBracketPos = line.from+field.end-1;    // ']'
  let fieldEndPos = line.from+field.end;
  // Full-line fields don't have brackets
  if (typeof field.wrapping !== "string") { keyPos = openBracketPos; closeBracketPos = fieldEndPos }
  ...
  const inline_or_fullline = typeof field.wrapping === "string" ? 'inline' : 'fullline';
  const isRounded = field.wrapping === '(';
  const markBracket = Decoration.mark({ tagName: 'span', class: `dataview source-mode-inline-field-bracket` })
  const markColon = Decoration.mark({ tagName: 'span',
      class: `dataview source-mode-${inline_or_fullline}-field-colon` })
  const markKey = Decoration.mark({ tagName: 'span', inclusive: true,
      class: `dataview source-mode-${inline_or_fullline}-field-key${isRounded ? '-hidden' : ''}` })
  const markValue = Decoration.mark({ tagName: 'span', inclusive: true,
      class: `dataview source-mode-${inline_or_fullline}-field${isRounded ? '-standalone' : ''}-value` })
  let decorations = [markColon.range(colonPos, valuePos)];
  if (typeof field.wrapping === "string") {
      decorations.push(markBracket.range(openBracketPos, keyPos));
      decorations.push(markBracket.range(closeBracketPos, fieldEndPos));
  }
  // Don't add if empty.
  if (keyPos!==colonPos) decorations.push(markKey.range(keyPos, colonPos))
  if (valuePos!==closeBracketPos) decorations.push(markValue.range(valuePos, closeBracketPos))
  return decorations;
  \<close>
  \<open>mark.range(from, to)\<close> of a mark decoration throws a \<open>RangeError\<close> (mark decorations
  may not be empty) unless \<open>from < to\<close>. The function has no effect of its own, so it
  throws, here the value \<open>None\<close>, as soon as one of its \<open>range\<close> calls does: when the key
  would start after the colon or the value after the closing bracket. The console
  output is not modelled.
\<close>

definition mark_range :: "'v decoration \<Rightarrow> int \<Rightarrow> int \<Rightarrow> 'v drange option" where
  "mark_range mark a b =
     (if a \<ge> b then None else Some \<lparr>dfrom = a, dto = b, dvalue = mark\<rparr>)"

definition createFieldDecoratorSourceMode ::
  "EditorView \<Rightarrow> Line \<Rightarrow> InlineField \<Rightarrow> 'v drange list option" where
  "createFieldDecoratorSourceMode view line field =
     (let openBracketPos = lfrom line + fstart field;
          colonPos = lfrom line + fstartValue field - 2;
          valuePos = lfrom line + fstartValue field;
          fieldEndPos = lfrom line + fend field;
          wrapped = (fwrapping field \<noteq> None);
          keyPos = (if wrapped then lfrom line + fstart field + 1 else openBracketPos);
          closeBracketPos = (if wrapped then lfrom line + fend field - 1 else fieldEndPos);
          inline_or_fullline = (if wrapped then ''inline'' else ''fullline'');
          isRounded = (fwrapping field = Some RoundBracket);
          markBracket = Mark ''dataview source-mode-inline-field-bracket'' False;
          markColon = Mark (''dataview source-mode-'' @ inline_or_fullline @ ''-field-colon'') False;
          markKey = Mark (''dataview source-mode-'' @ inline_or_fullline @ ''-field-key''
                          @ (if isRounded then ''-hidden'' else [])) True;
          markValue = Mark (''dataview source-mode-'' @ inline_or_fullline @ ''-field''
                            @ (if isRounded then ''-standalone'' else []) @ ''-value'') True
      in those ([mark_range markColon colonPos valuePos]
                @ (if wrapped
                   then [mark_range markBracket openBracketPos keyPos,
                         mark_range markBracket closeBracketPos fieldEndPos]
                   else [])
                @ (if keyPos \<noteq> colonPos then [mark_range markKey keyPos colonPos] else [])
                @ (if valuePos \<noteq> closeBracketPos
                   then [mark_range markValue valuePos closeBracketPos] else [])))"

text \<open>
  \<^verbatim>\<open>
  addFieldDecorator(view, line, field) {
      let exists = false;
      this.decorations.between(line.from+field.start, line.from+field.end,
          (_from, _to, _value) => { exists = true; });
      if (!exists) {
          const currentFile = app.workspace.getActiveFile();
          if (!currentFile) return;
          const newDeco = this.livepreview
              ? this.createFieldDecoratorLivePreview(view, line, field)
              : this.createFieldDecoratorSourceMode(view, line, field);
          this.decorations = this.decorations.update({ add: newDeco, sort: true });
      }
  }
  \<close>
  The result is the plugin state after the call, or \<open>None\<close> when the call throws.
\<close>

definition addFieldDecorator ::
  "('e, 'v) env \<Rightarrow> EditorView \<Rightarrow> Line \<Rightarrow> InlineField \<Rightarrow> 'v plugin \<Rightarrow> 'v plugin option" where
  "addFieldDecorator E view line field this =
     (let exists = (between (decorations this) (lfrom line + fstart field) (lfrom line + fend field) \<noteq> [])
      in if \<not> exists
         then (case activeFile E of
                 None \<Rightarrow> Some this
               | Some currentFile \<Rightarrow>
                   (case (if livepreview this
                          then Some (createFieldDecoratorLivePreview view line field)
                          else createFieldDecoratorSourceMode view line field) of
                      None \<Rightarrow> None
                    | Some newDeco \<Rightarrow>
                        Some (this\<lparr>decorations := update_add (decorations this) newDeco True\<rparr>)))
         else Some this)"

section \<open>Query decorations\<close>

text \<open>
  \<^verbatim>\<open>
  addQueryDecorator(node, view) {
      let exists = false;
      this.decorations.between(node.from - 1, node.to + 1, (_from, _to, _value) => { exists = true; });
      if (!exists) {
          const currentFile = app.workspace.getActiveFile();
          if (!currentFile) return;
          const newDeco = this.createQueryWidget(node, view, currentFile)?.value;
          if (newDeco) {
              this.decorations = this.decorations.update({
                  add: [{ from: node.from - 1, to: node.to + 1, value: newDeco }] });
          }
      }
  }
  \<close>
\<close>

definition addQueryDecorator ::
  "('e, 'v) env \<Rightarrow> SyntaxNode \<Rightarrow> EditorView \<Rightarrow> 'v plugin \<Rightarrow> 'v plugin" where
  "addQueryDecorator E node view this =
     (let exists = (between (decorations this) (nfrom node - 1) (nto node + 1) \<noteq> [])
      in if \<not> exists
         then (case activeFile E of
                 None \<Rightarrow> this
               | Some currentFile \<Rightarrow>
                   (case createQueryWidget E view node currentFile of
                      None \<Rightarrow> this
                    | Some r \<Rightarrow>
                        this\<lparr>decorations :=
                               update_add (decorations this)
                                 [\<lparr>dfrom = nfrom node - 1, dto = nto node + 1, dvalue = dvalue r\<rparr>]
                                 False\<rparr>))
         else this)"

text \<open>
  \<^verbatim>\<open>
  queryRenderInfo(view, node) {
      const properties = new Set(node.type.prop<String>(tokenClassNodeProp)?.split(" "));
      const isSelected = selectionAndRangeOverlap(view.state.selection, node.from - 1, node.to + 1);
      const isInlineQuery =
          properties.has("inline-code") // is inline code block
          && !properties.has("formatting") // is NOT formatting, like a backtick
          && this.isInlineQuery(view, node.from, node.to); // and is a query
      return { render: isInlineQuery && !isSelected, isQuery: isInlineQuery };
  }
  isInlineQuery(view, start, end) {
      const content = view.state.sliceDoc(start, end);
      return content.startsWith(settings.inlineQueryPrefix)
          || content.startsWith(settings.inlineJsQueryPrefix);
  }
  \<close>
\<close>

definition isInlineQuery :: "('e, 'v) env \<Rightarrow> EditorView \<Rightarrow> int \<Rightarrow> int \<Rightarrow> bool" where
  "isInlineQuery E view start end' =
     (let content = sliceDoc (doc view) start end'
      in startsWith content (inlineQueryPrefix (settings E))
         \<or> startsWith content (inlineJsQueryPrefix (settings E)))"

definition queryRenderInfo :: "('e, 'v) env \<Rightarrow> EditorView \<Rightarrow> SyntaxNode \<Rightarrow> bool \<times> bool" where
  "queryRenderInfo E view node =
     (let isSelected = selectionAndRangeOverlap (selection view) (nfrom node - 1) (nto node + 1);
          isQuery = (''inline-code'' \<in> properties node
                     \<and> ''formatting'' \<notin> properties node
                     \<and> isInlineQuery E view (nfrom node) (nto node))
      in (isQuery \<and> \<not> isSelected, isQuery))"

section \<open>The reconciliation pass\<close>

text \<open>
  \<^verbatim>\<open>
  updateTree(view) {
      // Inline fields
      for (const { from, to } of view.visibleRanges) {
          const lineFrom = view.state.doc.lineAt(from).number;
          const lineTo = view.state.doc.lineAt(to).number;
          for (let i = lineFrom; i <= lineTo; i++) {
              const line = view.state.doc.line(i);
              let fields: Array<InlineField|null> = extractInlineFields(line.text);
              if (!fields.length) fields = [extractFullLineField(line.text) ?? null]
              for (const field of fields) {
                  if (!field) break;
                  const { render } = this.fieldRenderInfo(view, line, field);
                  if (!render) { this.removeFieldDecorator(line, field); }
                  else if (render) { this.addFieldDecorator(view, line, field); }
              }
          }
      }
      // Inline queries
      if (!this.livepreview) return;
      for (const { from, to } of view.visibleRanges) {
          syntaxTree(view.state).iterate({ from, to,
              enter: ({ node }) => {
                  const { render, isQuery } = this.queryRenderInfo(view, node);
                  if (!render && isQuery) { this.removeQueryDecorator(node); }
                  else if (render) { this.addQueryDecorator(node, view); }
              },
          });
      }
  }
  \<close>
\<close>

text \<open>
  A loop whose body may throw: the state after the last element, or \<open>None\<close> as soon as
  the body throws. The field loops are such loops; the query loop is not, and the pass
  throws when its field part does.
\<close>

fun try_foldl :: "('s \<Rightarrow> 'a \<Rightarrow> 's option) \<Rightarrow> 's \<Rightarrow> 'a list \<Rightarrow> 's option" where
  "try_foldl f s [] = Some s"
| "try_foldl f s (x # xs) = (case f s x of None \<Rightarrow> None | Some s' \<Rightarrow> try_foldl f s' xs)"

definition lineFields :: "('e, 'v) env \<Rightarrow> Line \<Rightarrow> InlineField list" where
  "lineFields E line =
     (case extractInlineFields E (ltext line) of
        [] \<Rightarrow> (case extractFullLineField E (ltext line) of None \<Rightarrow> [] | Some f \<Rightarrow> [f])
      | f # fs \<Rightarrow> f # fs)"

definition fieldStep ::
  "('e, 'v) env \<Rightarrow> EditorView \<Rightarrow> Line \<Rightarrow> 'v plugin \<Rightarrow> InlineField \<Rightarrow> 'v plugin option" where
  "fieldStep E view line this field =
     (if \<not> fieldRenderInfo (livepreview this) (selection view) line field
      then Some (removeFieldDecorator line field this)
      else addFieldDecorator E view line field this)"

definition lineStep ::
  "('e, 'v) env \<Rightarrow> EditorView \<Rightarrow> 'v plugin \<Rightarrow> Line \<Rightarrow> 'v plugin option" where
  "lineStep E view this line = try_foldl (fieldStep E view line) this (lineFields E line)"

definition queryStep ::
  "('e, 'v) env \<Rightarrow> EditorView \<Rightarrow> 'v plugin \<Rightarrow> SyntaxNode \<Rightarrow> 'v plugin" where
  "queryStep E view this node =
     (case queryRenderInfo E view node of
        (render, isQuery) \<Rightarrow>
          if \<not> render \<and> isQuery then removeQueryDecorator node this
          else if render then addQueryDecorator E node view this
          else this)"

definition updateTree :: "('e, 'v) env \<Rightarrow> EditorView \<Rightarrow> 'v plugin \<Rightarrow> 'v plugin option" where
  "updateTree E view this =
     (case try_foldl (\<lambda>t vr. try_foldl (lineStep E view) t (vlines vr)) this (visibleRanges view) of
        None \<Rightarrow> None
      | Some this1 \<Rightarrow>
          Some (if \<not> livepreview this1 then this1
                else foldl (\<lambda>t vr. foldl (queryStep E view) t (vnodes vr)) this1
                       (visibleRanges view)))"

section \<open>Construction and update events\<close>

text \<open>
  A view update carries the view after the transaction, the three change flags and the
  change set. Of the change set the plugin uses \<open>decorations.map(update.changes)\<close>
  only. The library's \<open>RangeSet.map\<close> first discards, without mapping them, the ranges
  of every chunk of the set that a single change covers (\<open>changes.touchesRange\<close> answers
  \<open>"cover"\<close> for the chunk), and an empty range at a position inside a deleted stretch.
  How the ranges are grouped into chunks is internal to the library, so the update
  carries, as \<open>dropped\<close>, the positions in store order of the ranges discarded this
  way. Every other range is moved through \<open>changes.mapPos(pos, assoc)\<close>: the start with
  the side of the decoration's start, the end with the side of its end (a
  non-inclusive end stays before an insertion at its offset, a non-inclusive start
  after it; inclusive ends the other way round), and is discarded when it has collapsed.
\<close>

record ViewUpdate =
  uview :: EditorView
  docChanged :: bool
  selectionSet :: bool
  viewportChanged :: bool
  mapPos :: "int \<Rightarrow> int \<Rightarrow> int"
  dropped :: "nat \<Rightarrow> bool"

fun startSide :: "'v decoration \<Rightarrow> int" where
  "startSide (Replace w) = 1"
| "startSide (Mark c inclusive) = (if inclusive then -1 else 1)"

fun endSide :: "'v decoration \<Rightarrow> int" where
  "endSide (Replace w) = -1"
| "endSide (Mark c inclusive) = (if inclusive then 1 else -1)"

definition map_range :: "(int \<Rightarrow> int \<Rightarrow> int) \<Rightarrow> 'v drange \<Rightarrow> 'v drange option" where
  "map_range m d =
     (let newFrom = m (dfrom d) (startSide (dvalue d));
          newTo = m (dto d) (endSide (dvalue d))
      in if newFrom > newTo
            \<or> (newFrom = newTo \<and> startSide (dvalue d) > 0 \<and> endSide (dvalue d) \<le> 0)
         then None
         else Some (d\<lparr>dfrom := newFrom, dto := newTo\<rparr>))"

definition keep_undropped :: "(nat \<Rightarrow> bool) \<Rightarrow> 'a list \<Rightarrow> 'a list" where
  "keep_undropped dr xs = map fst (filter (\<lambda>p. \<not> dr (snd p)) (zip xs [0..<length xs]))"

definition map_decorations ::
  "(int \<Rightarrow> int \<Rightarrow> int) \<Rightarrow> (nat \<Rightarrow> bool) \<Rightarrow> 'v drange list \<Rightarrow> 'v drange list" where
  "map_decorations m dr decos = List.map_filter (map_range m) (keep_undropped dr decos)"

text \<open>
  \<^verbatim>\<open>
  constructor(view: EditorView) {
      this.component = new Component();
      this.component.load();
      this.decorations = Decoration.none;
      this.livepreview = view.state.field(editorLivePreviewField);
      this.updateTree(view);
  }
  update(update: ViewUpdate) {
      this.livepreview = update.state.field(editorLivePreviewField)
      if (update.docChanged) {
          this.decorations = this.decorations.map(update.changes);
          this.updateTree(update.view);
          return;
      }
      if (update.selectionSet) {
          this.updateTree(update.view);
          return;
      }
      if (update.viewportChanged /*&& update.selectionSet*/) {
          this.decorations = Decoration.none;
          this.updateTree(update.view);
          return;
      }
  }
  \<close>
  Both give the plugin state they leave, or \<open>None\<close> when the pass throws: the host then
  logs the exception and deactivates the plugin, so no later event reaches it.
\<close>

definition constructor :: "('e, 'v) env \<Rightarrow> EditorView \<Rightarrow> 'v plugin option" where
  "constructor E view =
     updateTree E view \<lparr>decorations = Decoration_none, livepreview = editorLivePreviewField view\<rparr>"

definition update :: "('e, 'v) env \<Rightarrow> ViewUpdate \<Rightarrow> 'v plugin \<Rightarrow> 'v plugin option" where
  "update E u this =
     (let this1 = this\<lparr>livepreview := editorLivePreviewField (uview u)\<rparr>
      in if docChanged u
         then updateTree E (uview u)
                (this1\<lparr>decorations := map_decorations (mapPos u) (dropped u) (decorations this1)\<rparr>)
         else if selectionSet u then updateTree E (uview u) this1
         else if viewportChanged u
         then updateTree E (uview u) (this1\<lparr>decorations := Decoration_none\<rparr>)
         else Some this1)"

section \<open>Auxiliary notions for the properties\<close>

text \<open>
  \<open>removed_by decos a b d\<close>: the range \<open>d\<close> touches the range of some decoration of
  \<open>decos\<close> that touches \<open>[a, b]\<close>. \<open>covers d a b\<close>: the range of \<open>d\<close> includes \<open>[a, b]\<close>.
  \<open>wf_store\<close>: no range of the store is inverted, as the editor library requires.
\<close>

definition removed_by :: "'v drange list \<Rightarrow> int \<Rightarrow> int \<Rightarrow> 'v drange \<Rightarrow> bool" where
  "removed_by decos a b d \<longleftrightarrow> (\<exists>e \<in> set decos. touches e a b \<and> touches d (dfrom e) (dto e))"

definition covers :: "'v drange \<Rightarrow> int \<Rightarrow> int \<Rightarrow> bool" where
  "covers d a b \<longleftrightarrow> dfrom d \<le> a \<and> b \<le> dto d"


section \<open>The first revision: inline queries only\<close>

text \<open>
  The first document of \<open>src/ui/lp-render.ts\<close> holds the revision without inline
  fields. Its plugin state is the decoration set alone; \<open>renderInfo\<close> and
  \<open>createQueryWidget\<close> read as \<open>queryRenderInfo\<close> and \<open>createQueryWidget\<close> above (the
  third branch tests \<open>isQuery && settings.enableInlineDataview\<close>, where the flag is
  already known to be set).
  \<^verbatim>\<open>
  removeDeco(node) {
      this.decorations.between(node.from - 1, node.to + 1, (from, to, _value) => {
          this.decorations = this.decorations.update({
              filterFrom: from, filterTo: to, filter: (_from, _to, _value) => false });
      });
  }
  addDeco(node, view) {
      let exists = false;
      this.decorations.between(node.from - 1, node.to + 1, (_from, _to, _value) => { exists = true; });
      if (!exists) {
          const currentFile = app.workspace.getActiveFile();
          if (!currentFile) return;
          const newDeco = this.createQueryWidget(node, view, currentFile)?.value;
          if (newDeco) {
              this.decorations = this.decorations.update({
                  add: [{ from: node.from - 1, to: node.to + 1, value: newDeco }] });
          }
      }
  }
  \<close>
\<close>

definition removeDeco :: "SyntaxNode \<Rightarrow> 'v drange list \<Rightarrow> 'v drange list" where
  "removeDeco node decos =
     foldl (\<lambda>ds d. update_filter_false ds (dfrom d) (dto d)) decos
           (between decos (nfrom node - 1) (nto node + 1))"

definition addDeco ::
  "('e, 'v) env \<Rightarrow> SyntaxNode \<Rightarrow> EditorView \<Rightarrow> 'v drange list \<Rightarrow> 'v drange list" where
  "addDeco E node view decos =
     (let exists = (between decos (nfrom node - 1) (nto node + 1) \<noteq> [])
      in if \<not> exists
         then (case activeFile E of
                 None \<Rightarrow> decos
               | Some currentFile \<Rightarrow>
                   (case createQueryWidget E view node currentFile of
                      None \<Rightarrow> decos
                    | Some r \<Rightarrow>
                        update_add decos
                          [\<lparr>dfrom = nfrom node - 1, dto = nto node + 1, dvalue = dvalue r\<rparr>] False))
         else decos)"

text \<open>
  \<^verbatim>\<open>
  updateTree(view) {
      for (const { from, to } of view.visibleRanges) {
          syntaxTree(view.state).iterate({ from, to,
              enter: ({ node }) => {
                  const { render, isQuery } = this.renderInfo(view, node);
                  if (!render && isQuery) { this.removeDeco(node); return; }
                  else if (!render) { return; }
                  else if (render) { this.addDeco(node, view); }
              },
          });
      }
  }
  inlineQueryRender(view) {
      if (!index.initialized) return;
      const currentFile = app.workspace.getActiveFile();
      if (!currentFile) return;
      const widgets: Range<Decoration>[] = [];
      for (const { from, to } of view.visibleRanges) {
          syntaxTree(view.state).iterate({ from, to,
              enter: ({ node }) => {
                  if (!this.renderInfo(view, node).render) return;
                  const widget = this.createQueryWidget(node, view, currentFile);
                  if (widget) { widgets.push(widget); }
              },
          });
      }
      return Decoration.set(widgets, true);
  }
  constructor(view) { ...; this.decorations = this.inlineQueryRender(view) ?? Decoration.none; }
  update(update) {
      // only activate in LP and not source mode
      if (!update.state.field(editorLivePreviewField)) { this.decorations = Decoration.none; return; }
      if (update.docChanged) {
          this.decorations = this.decorations.map(update.changes);
          this.updateTree(update.view);
          return;
      }
      if (update.selectionSet) { this.updateTree(update.view); return; }
      if (update.viewportChanged) {
          this.decorations = this.inlineQueryRender(update.view) ?? Decoration.none;
          return;
      }
  }
  \<close>
\<close>

definition updateTree_v1 ::
  "('e, 'v) env \<Rightarrow> EditorView \<Rightarrow> 'v drange list \<Rightarrow> 'v drange list" where
  "updateTree_v1 E view decos =
     foldl (\<lambda>ds vr.
              foldl (\<lambda>ds' node.
                       case queryRenderInfo E view node of
                         (render, isQuery) \<Rightarrow>
                           if \<not> render \<and> isQuery then removeDeco node ds'
                           else if \<not> render then ds'
                           else addDeco E node view ds')
                    ds (vnodes vr))
           decos (visibleRanges view)"

definition inlineQueryRender :: "('e, 'v) env \<Rightarrow> EditorView \<Rightarrow> 'v drange list option" where
  "inlineQueryRender E view =
     (if \<not> initialized E then None
      else case activeFile E of
             None \<Rightarrow> None
           | Some currentFile \<Rightarrow>
               Some (Decoration_set
                 (foldl (\<lambda>widgets vr.
                           foldl (\<lambda>ws node.
                                    if \<not> fst (queryRenderInfo E view node) then ws
                                    else (case createQueryWidget E view node currentFile of
                                            None \<Rightarrow> ws
                                          | Some widget \<Rightarrow> ws @ [widget]))
                                 widgets (vnodes vr))
                        [] (visibleRanges view))))"

definition constructor_v1 :: "('e, 'v) env \<Rightarrow> EditorView \<Rightarrow> 'v drange list" where
  "constructor_v1 E view =
     (case inlineQueryRender E view of None \<Rightarrow> Decoration_none | Some ds \<Rightarrow> ds)"

definition update_v1 :: "('e, 'v) env \<Rightarrow> ViewUpdate \<Rightarrow> 'v drange list \<Rightarrow> 'v drange list" where
  "update_v1 E u decos =
     (if \<not> editorLivePreviewField (uview u) then Decoration_none
      else if docChanged u
      then updateTree_v1 E (uview u) (map_decorations (mapPos u) (dropped u) decos)
      else if selectionSet u then updateTree_v1 E (uview u) decos
      else if viewportChanged u
      then (case inlineQueryRender E (uview u) of None \<Rightarrow> Decoration_none | Some ds \<Rightarrow> ds)
      else decos)"

section \<open>Reachable states of the current revision\<close>

text \<open>
  The position mapping of a change set never reorders positions: a position not after
  another one, taken with a side not after the other's, is not mapped after it.
\<close>

definition mono_mapPos :: "(int \<Rightarrow> int \<Rightarrow> int) \<Rightarrow> bool" where
  "mono_mapPos m \<longleftrightarrow> (\<forall>p q a b. p \<le> q \<and> a \<le> b \<longrightarrow> m p a \<le> m q b)"

text \<open>
  The plugin states that construction and any sequence of update events leave when
  they return, whatever the ranges are that the library discards while mapping. The
  environment (active file, settings, collaborators) may differ from event to event;
  the first argument is the environment of the latest event.
\<close>

inductive reachable :: "('e, 'v) env \<Rightarrow> 'v plugin \<Rightarrow> bool" where
  reach_constructor: "constructor E view = Some this \<Longrightarrow> reachable E this"
| reach_update:
    "reachable E this \<Longrightarrow> (docChanged u \<longrightarrow> mono_mapPos (mapPos u))
       \<Longrightarrow> update E' u this = Some this' \<Longrightarrow> reachable E' this'"

text \<open>
  The nodes and the fields a pass visits, in order.
\<close>

definition visitedNodes :: "EditorView \<Rightarrow> SyntaxNode list" where
  "visitedNodes view = concat (map vnodes (visibleRanges view))"

definition visitedFields :: "('e, 'v) env \<Rightarrow> EditorView \<Rightarrow> (Line \<times> InlineField) list" where
  "visitedFields E view =
     concat (map (\<lambda>line. map (Pair line) (lineFields E line))
                 (concat (map vlines (visibleRanges view))))"

definition apart :: "'v drange \<Rightarrow> 'v drange \<Rightarrow> bool" where
  "apart d e \<longleftrightarrow> dto d \<le> dfrom e \<or> dto e \<le> dfrom d"

definition replace_apart :: "'v drange \<Rightarrow> 'v drange \<Rightarrow> bool" where
  "replace_apart d e \<longleftrightarrow> (isReplace (dvalue d) \<and> isReplace (dvalue e) \<longrightarrow> apart d e)"

text \<open>
  The invariant of the store: any two Replace-decorations at different places of the
  store are apart, that is, one ends where or before the other starts.
\<close>

definition store_inv :: "'v drange list \<Rightarrow> bool" where
  "store_inv decos \<longleftrightarrow> sorted_wrt replace_apart decos"

section \<open>Example inputs\<close>

text \<open>
  An environment with the default prefixes and both features enabled, an active file, a
  parser that rejects \<open>bad+++syntax\<close>, an engine that returns the expression, and
  scripts whose promise is rejected.
\<close>

definition example_env :: "(string, string) env" where
  "example_env =
     \<lparr>activeFile = Some ''note.md'', initialized = True,
      settings = \<lparr>inlineQueryPrefix = ''='', inlineJsQueryPrefix = ''$='',
                  enableInlineDataview = True, enableInlineDataviewJs = True\<rparr>,
      extractInlineFields = (\<lambda>t. []), extractFullLineField = (\<lambda>t. None),
      parseField = (\<lambda>c. if c = ''bad+++syntax'' then Inl ''parse error'' else Inr c),
      executeInline = (\<lambda>f p. Inr f), showField = (\<lambda>f. f),
      evalInContext = (\<lambda>s p. Inr s),
      evalInContextAsync = (\<lambda>s p. Inr (Inl ''ReferenceError: x is not defined''))\<rparr>"

definition inlineCode :: "int \<Rightarrow> int \<Rightarrow> SyntaxNode" where
  "inlineCode a b = \<lparr>nfrom = a, nto = b, tokenClass = Some ''inline-code''\<rparr>"

text \<open>
  A one-line document with three inline queries and the cursor at offset \<open>c\<close>, in live
  preview.
\<close>

definition example_view :: "int \<Rightarrow> EditorView" where
  "example_view c =
     \<lparr>doc = ''`=1``=22``=3`'', selection = [\<lparr>rfrom = c, rto = c\<rparr>],
      editorLivePreviewField = True,
      visibleRanges = [\<lparr>vlines = [\<lparr>lfrom = 0, ltext = ''`=1``=22``=3`''\<rparr>],
                        vnodes = [inlineCode 1 3, inlineCode 5 8, inlineCode 10 12]\<rparr>]\<rparr>"

definition selection_event :: "EditorView \<Rightarrow> ViewUpdate" where
  "selection_event view =
     \<lparr>uview = view, docChanged = False, selectionSet = True, viewportChanged = False,
      mapPos = (\<lambda>p a. p), dropped = (\<lambda>i. False)\<rparr>"

text \<open>
  The same document after a character has been typed at its start, with the cursor
  behind that character: the change set moves every offset by one, apart from offset 0
  taken with a side before the insertion; no chunk is covered.
\<close>

definition typed_view :: EditorView where
  "typed_view =
     \<lparr>doc = ''x`=1``=22``=3`'', selection = [\<lparr>rfrom = 1, rto = 1\<rparr>],
      editorLivePreviewField = True,
      visibleRanges = [\<lparr>vlines = [\<lparr>lfrom = 0, ltext = ''x`=1``=22``=3`''\<rparr>],
                        vnodes = [inlineCode 2 4, inlineCode 6 9, inlineCode 11 13]\<rparr>]\<rparr>"

text \<open>
  The three-query document in source-display mode with the cursor inside the first
  query, and the plugin state on the typed document after construction on the
  three-query document and the typing event.
\<close>

definition source_view :: EditorView where
  "source_view = (example_view 2)\<lparr>editorLivePreviewField := False\<rparr>"

definition typed_state :: "string plugin" where
  "typed_state =
     \<lparr>decorations =
        [\<lparr>dfrom = 10, dto = 14,
          dvalue = Replace \<lparr>cssClasses = [], sourceString = ''3'',
                            el = \<lparr>classes = [''dataview'', ''dataview-inline''],
                                   content = Rendered ''3''\<rparr>\<rparr>\<rparr>],
      livepreview = True\<rparr>"

definition typing_event :: ViewUpdate where
  "typing_event =
     \<lparr>uview = typed_view, docChanged = True, selectionSet = True, viewportChanged = False,
      mapPos = (\<lambda>p a. if p = 0 \<and> a < 0 then 0 else p + 1), dropped = (\<lambda>i. False)\<rparr>"

text \<open>
  A line with a bracketed field whose value is an inline query, directly followed by a
  second inline query; the Field Scanner finds the field, and the syntax tree has the
  two code nodes and their backticks. The view has the cursor at offset \<open>c\<close> and is in
  live preview or not.
\<close>

definition example_field :: InlineField where
  "example_field =
     \<lparr>fkey = ''k'', fvalue = ''`=1`'', fstart = 0, fstartValue = 4, fend = 10,
      fwrapping = Some SquareBracket\<rparr>"

definition example_line :: Line where
  "example_line = \<lparr>lfrom = 0, ltext = ''[k:: `=1`]`=2` end''\<rparr>"

definition example_field_env :: "(string, string) env" where
  "example_field_env =
     example_env\<lparr>extractInlineFields :=
                   (\<lambda>t. if t = ''[k:: `=1`]`=2` end'' then [example_field] else [])\<rparr>"

definition backtick :: "int \<Rightarrow> SyntaxNode" where
  "backtick a = \<lparr>nfrom = a, nto = a + 1,
                 tokenClass = Some ''formatting formatting-code inline-code''\<rparr>"

definition example_field_view :: "bool \<Rightarrow> int \<Rightarrow> EditorView" where
  "example_field_view lp c =
     \<lparr>doc = ''[k:: `=1`]`=2` end'',
      selection = [\<lparr>rfrom = c, rto = c\<rparr>],
      editorLivePreviewField = lp,
      visibleRanges = [\<lparr>vlines = [example_line],
                        vnodes = [backtick 5, inlineCode 6 8, backtick 8,
                                  backtick 10, inlineCode 11 13, backtick 13]\<rparr>]\<rparr>"


section \<open>The selection-overlap contract\<close>

text \<open>
  C9. \<open>selectionAndRangeOverlap sel from to\<close> is true exactly when some selection
  range \<open>r\<close> has \<open>r.from \<le> to\<close> and \<open>r.to \<ge> from\<close> (both ends inclusive); with no such
  range it is false.
\<close>

theorem overlap_contract:
  "selectionAndRangeOverlap sel rangeFrom rangeTo
     \<longleftrightarrow> (\<exists>r \<in> set sel. rfrom r \<le> rangeTo \<and> rto r \<ge> rangeFrom)"
  by (induction sel) auto

theorem overlap_contract_witness:
  "selectionAndRangeOverlap [\<lparr>rfrom = 0, rto = 1\<rparr>, \<lparr>rfrom = 9, rto = 12\<rparr>] 4 9
   \<and> (\<exists>r \<in> set [\<lparr>rfrom = 0, rto = 1\<rparr>, \<lparr>rfrom = 9, rto = 12\<rparr>]. rfrom r \<le> 9 \<and> rto r \<ge> 4)
   \<and> \<not> selectionAndRangeOverlap [\<lparr>rfrom = 0, rto = 1\<rparr>, \<lparr>rfrom = 10, rto = 12\<rparr>] 4 9"
  using overlap_contract [of "[\<lparr>rfrom = 0, rto = 1\<rparr>, \<lparr>rfrom = 9, rto = 12\<rparr>]" 4 9]
        overlap_contract [of "[\<lparr>rfrom = 0, rto = 1\<rparr>, \<lparr>rfrom = 10, rto = 12\<rparr>]" 4 9]
  by simp

section \<open>The field reveal decision\<close>


section \<open>Removal is by range\<close>

lemma foldl_filter_decorations:
  "decorations (foldl (\<lambda>this' d. this'\<lparr>decorations :=
                          update_filter_false (decorations this') (dfrom d) (dto d)\<rparr>) this es)
   = filter (\<lambda>d. \<not> (\<exists>e \<in> set es. touches d (dfrom e) (dto e))) (decorations this)"
  by (induction es arbitrary: this) (auto simp: update_filter_false_def intro: filter_cong)

lemma foldl_filter_livepreview:
  "livepreview (foldl (\<lambda>this' d. this'\<lparr>decorations :=
                          update_filter_false (decorations this') (dfrom d) (dto d)\<rparr>) this es)
   = livepreview this"
  by (induction es arbitrary: this) auto

lemma decorations_removeQueryDecorator:
  "decorations (removeQueryDecorator node this)
   = filter (\<lambda>d. \<not> removed_by (decorations this) (nfrom node - 1) (nto node + 1) d)
            (decorations this)"
  by (auto simp: removeQueryDecorator_def foldl_filter_decorations between_def removed_by_def
           intro: filter_cong)

lemma decorations_removeFieldDecorator:
  "decorations (removeFieldDecorator line field this)
   = filter (\<lambda>d. \<not> removed_by (decorations this) (lfrom line + fstart field)
                                (lfrom line + fend field) d)
            (decorations this)"
  by (auto simp: removeFieldDecorator_def foldl_filter_decorations between_def removed_by_def
           intro: filter_cong)

lemma livepreview_removeQueryDecorator [simp]:
  "livepreview (removeQueryDecorator node this) = livepreview this"
  by (simp add: removeQueryDecorator_def foldl_filter_livepreview)

lemma livepreview_removeFieldDecorator [simp]:
  "livepreview (removeFieldDecorator line field this) = livepreview this"
  by (simp add: removeFieldDecorator_def foldl_filter_livepreview)





section \<open>The unterminated inline-code guard\<close>

lemma sliceDoc_char:
  assumes "0 \<le> p" "nat p < length d" "d ! nat p = c"
  shows "sliceDoc d p (p + 1) = [c]"
proof -
  have "take 1 (drop (nat p) d) = [d ! nat p]"
    using assms(2) by (simp add: take_Suc_conv_app_nth hd_drop_conv_nth take_Suc)
  then show ?thesis using assms by (simp add: sliceDoc_def)
qed

text \<open>
  C5. When the character at offset \<open>node.to\<close> is a newline, \<open>createQueryWidget\<close> returns
  no widget (it returns, it does not raise, and no error text is built), and
  \<open>addQueryDecorator\<close> leaves the plugin state, hence the store, as it was.
\<close>

theorem unterminated_guard:
  assumes "0 \<le> nto node" "nat (nto node) < length (doc view)"
      and "doc view ! nat (nto node) = CHR 0x0A"
  shows "createQueryWidget E view node currentFile = None
       \<and> addQueryDecorator E node view this = this"
proof -
  have "sliceDoc (doc view) (nto node) (nto node + 1) = [CHR 0x0A]"
    using assms by (rule sliceDoc_char)
  then have none: "createQueryWidget E view node currentFile = None" for currentFile
    by (simp add: createQueryWidget_def)
  then show ?thesis
    by (simp add: addQueryDecorator_def Let_def split: option.splits)
qed

theorem unterminated_guard_witness:
  "(0::int) \<le> 3 \<and> nat 3 < length (''`=1'' @ [CHR 0x0A] @ ''next line'')
   \<and> (''`=1'' @ [CHR 0x0A] @ ''next line'') ! nat 3 = CHR 0x0A
   \<and> createQueryWidget example_env
        \<lparr>doc = ''`=1'' @ [CHR 0x0A] @ ''next line'', selection = [],
         editorLivePreviewField = True, visibleRanges = []\<rparr>
        (inlineCode 1 3) ''note.md'' = None
   \<and> addQueryDecorator example_env (inlineCode 1 3)
        \<lparr>doc = ''`=1'' @ [CHR 0x0A] @ ''next line'', selection = [],
         editorLivePreviewField = True, visibleRanges = []\<rparr>
        \<lparr>decorations = [], livepreview = True\<rparr>
     = \<lparr>decorations = [], livepreview = True\<rparr>"
  using unterminated_guard [of "inlineCode 1 3"
          "\<lparr>doc = ''`=1'' @ [CHR 0x0A] @ ''next line'', selection = [],
            editorLivePreviewField = True, visibleRanges = []\<rparr>"
          example_env "''note.md''" "\<lparr>decorations = [], livepreview = True\<rparr>"]
  by (simp add: inlineCode_def)

section \<open>Widget equality and class patching\<close>

lemma InlineWidget_eq_iff:
  "fst (InlineWidget_eq this other) \<longleftrightarrow> sourceString other = sourceString this"
  by (simp add: InlineWidget_eq_def)

lemma patch_classes_subset:
  "set (classes (foldl (\<lambda>e v. if v \<notin> C then removeClass v e else addClass v e) e vs))
     \<subseteq> set (classes e) \<union> C"
proof (induction vs arbitrary: e)
  case Nil
  show ?case by simp
next
  case (Cons a vs)
  let ?e' = "if a \<notin> C then removeClass a e else addClass a e"
  have "set (classes ?e') \<subseteq> set (classes e) \<union> C"
    by (auto simp: removeClass_def addClass_def)
  with Cons.IH [of ?e'] show ?case by auto
qed

text \<open>
  Whatever the other widget's classes are, \<open>eq\<close> leaves on \<open>this.el\<close> only classes that
  were on it or that are classes of \<open>this\<close>: a class that only the other widget has is
  never put on the element.
\<close>

lemma InlineWidget_eq_classes:
  "set (classes (snd (InlineWidget_eq this other)))
     \<subseteq> set (classes (el this)) \<union> set (cssClasses this)"
  using patch_classes_subset [of "set (cssClasses this)" "el this" "cssClasses other"]
  by (simp add: InlineWidget_eq_def)

text \<open>
  C7 at a concrete input. The widget on screen has the class \<open>cm-em\<close> and its element,
  drawn by \<open>toDOM\<close>, carries it; the new widget has the same source text and the class
  \<open>cm-strong\<close>. Both are equal (\<open>eq\<close> returns true in both directions), as C7
  says. But after \<open>old.eq(new)\<close> the drawn element still carries \<open>cm-em\<close> and not
  \<open>cm-strong\<close>, and \<open>new.eq(old)\<close> only touches the new widget's own element, which
  ends up without either class: the new class set is not patched onto the existing
  element.
\<close>

theorem widget_eq_keeps_old_classes:
  "InlineWidget_eq
     \<lparr>cssClasses = [''cm-em''], sourceString = ''1 + 1'',
      el = toDOM \<lparr>cssClasses = [''cm-em''], sourceString = ''1 + 1'',
                   el = \<lparr>classes = [''dataview'', ''dataview-inline''], content = Rendered ''2''\<rparr>\<rparr>\<rparr>
     \<lparr>cssClasses = [''cm-strong''], sourceString = ''1 + 1'',
      el = \<lparr>classes = [''dataview'', ''dataview-inline''], content = Rendered ''2''\<rparr>\<rparr>
   = (True, \<lparr>classes = [''dataview'', ''dataview-inline'', ''cm-em''], content = Rendered ''2''\<rparr>)
   \<and> InlineWidget_eq
     \<lparr>cssClasses = [''cm-strong''], sourceString = ''1 + 1'',
      el = \<lparr>classes = [''dataview'', ''dataview-inline''], content = Rendered ''2''\<rparr>\<rparr>
     \<lparr>cssClasses = [''cm-em''], sourceString = ''1 + 1'',
      el = toDOM \<lparr>cssClasses = [''cm-em''], sourceString = ''1 + 1'',
                   el = \<lparr>classes = [''dataview'', ''dataview-inline''], content = Rendered ''2''\<rparr>\<rparr>\<rparr>
   = (True, \<lparr>classes = [''dataview'', ''dataview-inline''], content = Rendered ''2''\<rparr>)"
  by (simp add: InlineWidget_eq_def toDOM_def addClasses_def addClass_def removeClass_def)

section \<open>Error recovery in query widgets\<close>

text \<open>
  The failures that surface while \<open>createQueryWidget\<close> runs become literal texts: a
  disabled feature, without parsing or executing anything; a parse failure; an
  execution failure; an exception thrown by a script.
\<close>

lemma queryContent_disabled:
  assumes "startsWith text (inlineQueryPrefix (settings E)) \<and> \<not> enableInlineDataview (settings E)
           \<or> startsWith text (inlineJsQueryPrefix (settings E)) \<and> \<not> enableInlineDataviewJs (settings E)"
  shows "queryContent E text f = ([], InnerText ''(disabled; enable in settings)'')"
  using assms by (auto simp: queryContent_def Let_def)

lemma queryContent_parse_failure:
  assumes "startsWith text (inlineQueryPrefix (settings E))" "enableInlineDataview (settings E)"
      and "\<not> (startsWith text (inlineJsQueryPrefix (settings E)) \<and> \<not> enableInlineDataviewJs (settings E))"
      and "parseField E (trim (drop (length (inlineQueryPrefix (settings E))) text)) = Inl err"
  shows "snd (queryContent E text f)
         = InnerText (''Dataview (inline field ''
                      @ quote (trim (drop (length (inlineQueryPrefix (settings E))) text))
                      @ ''): '' @ err)"
  using assms by (auto simp: queryContent_def Let_def)

lemma queryContent_shape:
  "(\<exists>s. snd (queryContent E text f) = InnerText s)
   \<or> (\<exists>v. snd (queryContent E text f) = Rendered v)
   \<or> (\<exists>p. snd (queryContent E text f) = Deferred p)"
  by (auto simp: queryContent_def Let_def split: sum.splits)

text \<open>
  C4 at a concrete input. The script query \<open>$= await x\<close> contains \<open>await\<close>, so it is
  wrapped into an asynchronous function whose promise is rejected (\<open>x\<close> is not
  defined). The widget is built with a pending element; only a fulfilment callback is
  registered, so when the promise has settled the element is empty: the failure has
  not become the literal error text.
\<close>

theorem async_script_failure_not_recovered:
  "createQueryWidget example_env
     \<lparr>doc = ''`$= await x`'', selection = [], editorLivePreviewField = True, visibleRanges = []\<rparr>
     (inlineCode 1 11) ''note.md''
   = Some \<lparr>dfrom = 0, dto = 12,
           dvalue = Replace \<lparr>cssClasses = [], sourceString = ''await x'',
                             el = \<lparr>classes = [''dataview'', ''dataview-inline''],
                                    content = Deferred (Inl ''ReferenceError: x is not defined'')\<rparr>\<rparr>\<rparr>
   \<and> settled (Deferred (Inl ''ReferenceError: x is not defined'') :: string content) = Empty"
  by (simp add: createQueryWidget_def example_env_def inlineCode_def sliceDoc_def startsWith_def
        queryContent_def trim_def isWhitespace_def getCssClasses_def properties_def PREAMBLE_def)

section \<open>The index-readiness gate\<close>

text \<open>
  C8 at a concrete input: the index is not initialized, the file is active, the cursor
  is away from the three inline queries of the example view. The from-scratch path of
  the first revision declines to render (\<open>inlineQueryRender\<close> returns nothing), but its
  selection-changed path, which goes through \<open>updateTree\<close>, adds decorations; the
  current revision adds them already on construction.
\<close>

theorem index_gate_missing:
  "initialized (example_env\<lparr>initialized := False\<rparr>) = False
   \<and> inlineQueryRender (example_env\<lparr>initialized := False\<rparr>) (example_view 20) = None
   \<and> map (\<lambda>d. (dfrom d, dto d))
       (update_v1 (example_env\<lparr>initialized := False\<rparr>) (selection_event (example_view 20))
          (constructor_v1 (example_env\<lparr>initialized := False\<rparr>) (example_view 20)))
     = [(0, 4), (9, 13)]
   \<and> map_option (\<lambda>this. map (\<lambda>d. (dfrom d, dto d)) (decorations this))
       (constructor (example_env\<lparr>initialized := False\<rparr>) (example_view 20))
     = Some [(0, 4), (9, 13)]"
proof -
  have "inlineQueryRender (example_env\<lparr>initialized := False\<rparr>) (example_view 20) = None"
    by (simp add: inlineQueryRender_def example_env_def)
  moreover have "map (\<lambda>d. (dfrom d, dto d))
       (update_v1 (example_env\<lparr>initialized := False\<rparr>) (selection_event (example_view 20))
          (constructor_v1 (example_env\<lparr>initialized := False\<rparr>) (example_view 20)))
     = [(0, 4), (9, 13)]"
    by code_simp
  moreover have "map_option (\<lambda>this. map (\<lambda>d. (dfrom d, dto d)) (decorations this))
       (constructor (example_env\<lparr>initialized := False\<rparr>) (example_view 20))
     = Some [(0, 4), (9, 13)]"
    by code_simp
  ultimately show ?thesis by simp
qed

section \<open>Facts about the store operations\<close>

lemma merge_add_Nil2 [simp]: "merge_add xs [] = xs"
  by (cases xs) simp_all

lemma set_merge_add [simp]: "set (merge_add xs ys) = set xs \<union> set ys"
  by (induction xs ys rule: merge_add.induct) auto

lemma sorted_wrt_merge_add:
  assumes "sorted_wrt P xs" "sorted_wrt P ys"
      and "\<forall>x \<in> set xs. \<forall>y \<in> set ys. P x y \<and> P y x"
  shows "sorted_wrt P (merge_add xs ys)"
  using assms by (induction xs ys rule: merge_add.induct) auto

lemma filter_merge_add_single_out:
  "\<not> P a \<Longrightarrow> filter P (merge_add xs [a]) = filter P xs"
  by (induction xs) auto

lemma filter_merge_add_single_in:
  "P a \<Longrightarrow> \<forall>x \<in> set xs. \<not> P x \<Longrightarrow> filter P (merge_add xs [a]) = [a]"
  by (induction xs) auto

lemma between_empty_iff: "between decos a b = [] \<longleftrightarrow> (\<forall>d \<in> set decos. \<not> touches d a b)"
  by (simp add: between_def filter_empty_conv)


section \<open>Facts about the insert operations\<close>

lemma createQueryWidget_Some:
  "createQueryWidget E view node f = Some r
     \<Longrightarrow> dfrom r = nfrom node - 1 \<and> dto r = nto node + 1 \<and> isReplace (dvalue r)"
  by (auto simp: createQueryWidget_def Let_def split: if_splits prod.splits)

lemma addQueryDecorator_cases:
  "addQueryDecorator E node view this = this
   \<or> (\<exists>w. between (decorations this) (nfrom node - 1) (nto node + 1) = []
         \<and> addQueryDecorator E node view this
           = this\<lparr>decorations := merge_add (decorations this)
                      [\<lparr>dfrom = nfrom node - 1, dto = nto node + 1, dvalue = Replace w\<rparr>]\<rparr>)"
proof (cases "between (decorations this) (nfrom node - 1) (nto node + 1) = []")
  case False
  then show ?thesis by (simp add: addQueryDecorator_def)
next
  case empty: True
  show ?thesis
  proof (cases "activeFile E")
    case None
    then show ?thesis by (simp add: addQueryDecorator_def)
  next
    case (Some f)
    show ?thesis
    proof (cases "createQueryWidget E view node f")
      case None
      with Some show ?thesis by (simp add: addQueryDecorator_def)
    next
      case (Some r)
      then have "isReplace (dvalue r)" by (auto dest: createQueryWidget_Some)
      then obtain w where "dvalue r = Replace w" by (cases "dvalue r") auto
      with Some \<open>activeFile E = Some f\<close> empty
      have "addQueryDecorator E node view this
            = this\<lparr>decorations := merge_add (decorations this)
                      [\<lparr>dfrom = nfrom node - 1, dto = nto node + 1, dvalue = Replace w\<rparr>]\<rparr>"
        by (simp add: addQueryDecorator_def update_add_def)
      with empty show ?thesis by blast
    qed
  qed
qed

lemma addQueryDecorator_exists:
  "\<exists>d \<in> set (decorations this). touches d (nfrom node - 1) (nto node + 1)
     \<Longrightarrow> addQueryDecorator E node view this = this"
  by (auto simp: addQueryDecorator_def Let_def between_empty_iff)

lemma addFieldDecorator_exists:
  "\<exists>d \<in> set (decorations this). touches d (lfrom line + fstart field) (lfrom line + fend field)
     \<Longrightarrow> addFieldDecorator E view line field this = Some this"
  by (auto simp: addFieldDecorator_def Let_def between_empty_iff)

lemma those_Some_mem:
  "those xs = Some ys \<Longrightarrow> y \<in> set ys \<Longrightarrow> Some y \<in> set xs"
  by (induction xs arbitrary: ys) (auto split: option.splits)

lemma mark_range_Some:
  "mark_range v a b = Some d \<Longrightarrow> dvalue d = v \<and> dfrom d = a \<and> dto d = b \<and> a < b"
  by (auto simp: mark_range_def split: if_splits)

lemma createFieldDecoratorSourceMode_marks:
  assumes "createFieldDecoratorSourceMode view line field = Some ms" "d \<in> set ms"
  shows "\<not> isReplace (dvalue d) \<and> dfrom d < dto d"
proof -
  from assms obtain xs where xs: "those xs = Some ms"
    and marks: "\<forall>x \<in> set xs. \<exists>c i a b. x = mark_range (Mark c i) a b"
    unfolding createFieldDecoratorSourceMode_def Let_def by fastforce
  from those_Some_mem [OF xs assms(2)] marks
  obtain c i a b where "mark_range (Mark c i) a b = Some d" by metis
  from mark_range_Some [OF this] show ?thesis by simp
qed

lemma addFieldDecorator_cases:
  fixes this :: "'v plugin"
  assumes "addFieldDecorator E view line field this = Some t"
  shows "t = this
   \<or> (\<exists>ms. (\<forall>d \<in> set ms. \<not> isReplace (dvalue d))
         \<and> t = this\<lparr>decorations := merge_add (decorations this) ms\<rparr>)"
proof (cases "t = this")
  case True then show ?thesis by simp
next
  case False
  show ?thesis
  proof (cases "livepreview this")
    case True
    with assms False have "t = this\<lparr>decorations := merge_add (decorations this) []\<rparr>"
      by (auto simp: addFieldDecorator_def Let_def update_add_def
            createFieldDecoratorLivePreview_def split: option.splits if_splits)
    then show ?thesis by auto
  next
    case source: False
    with assms False obtain newDeco
      where n: "createFieldDecoratorSourceMode view line field = Some (newDeco :: 'v drange list)"
        and t: "t = this\<lparr>decorations := merge_add (decorations this) (sort_key dfrom newDeco)\<rparr>"
      by (auto simp: addFieldDecorator_def Let_def update_add_def split: option.splits if_splits)
    have "\<forall>d \<in> set (sort_key dfrom newDeco). \<not> isReplace (dvalue d)"
      using createFieldDecoratorSourceMode_marks [OF n] by simp
    with t show ?thesis by blast
  qed
qed

section \<open>The store invariant\<close>

lemma store_inv_Nil: "store_inv []" by (simp add: store_inv_def)

lemma store_inv_filter: "store_inv decos \<Longrightarrow> store_inv (filter P decos)"
  by (simp add: store_inv_def sorted_wrt_filter)

lemma sorted_wrt_all: "(\<forall>x \<in> set xs. \<forall>y \<in> set xs. P x y) \<Longrightarrow> sorted_wrt P xs"
  by (induction xs) auto

lemma store_inv_add_marks:
  assumes "store_inv decos" "\<forall>d \<in> set ms. \<not> isReplace (dvalue d)"
  shows "store_inv (merge_add decos ms)"
proof -
  have "sorted_wrt replace_apart ms"
    using assms(2) by (intro sorted_wrt_all) (simp add: replace_apart_def)
  moreover have "\<forall>x \<in> set decos. \<forall>y \<in> set ms. replace_apart x y \<and> replace_apart y x"
    using assms(2) by (simp add: replace_apart_def)
  ultimately show ?thesis
    using assms(1) unfolding store_inv_def by (intro sorted_wrt_merge_add)
qed

lemma store_inv_add_replace:
  assumes "store_inv decos" "between decos a b = []"
  shows "store_inv (merge_add decos [\<lparr>dfrom = a, dto = b, dvalue = v\<rparr>])"
proof -
  have "\<forall>x \<in> set decos. \<forall>y \<in> set [\<lparr>dfrom = a, dto = b, dvalue = v\<rparr>].
          replace_apart x y \<and> replace_apart y x"
    using assms(2) by (auto simp: replace_apart_def apart_def between_empty_iff touches_def)
  moreover have "sorted_wrt replace_apart [\<lparr>dfrom = a, dto = b, dvalue = v\<rparr>]"
    by simp
  ultimately show ?thesis
    using assms(1) unfolding store_inv_def by (intro sorted_wrt_merge_add)
qed

lemma store_inv_removeQueryDecorator:
  "store_inv (decorations this) \<Longrightarrow> store_inv (decorations (removeQueryDecorator node this))"
  by (simp add: decorations_removeQueryDecorator store_inv_filter)

lemma store_inv_removeFieldDecorator:
  "store_inv (decorations this) \<Longrightarrow> store_inv (decorations (removeFieldDecorator line field this))"
  by (simp add: decorations_removeFieldDecorator store_inv_filter)

lemma store_inv_addQueryDecorator:
  "store_inv (decorations this) \<Longrightarrow> store_inv (decorations (addQueryDecorator E node view this))"
  using addQueryDecorator_cases [of E node view this]
  by (auto simp: store_inv_add_replace)

lemma store_inv_addFieldDecorator:
  "store_inv (decorations this) \<Longrightarrow> addFieldDecorator E view line field this = Some t
     \<Longrightarrow> store_inv (decorations t)"
  by (auto dest!: addFieldDecorator_cases simp: store_inv_add_marks)

lemma store_inv_fieldStep:
  "store_inv (decorations this) \<Longrightarrow> fieldStep E view line this field = Some t
     \<Longrightarrow> store_inv (decorations t)"
  by (auto simp: fieldStep_def store_inv_removeFieldDecorator store_inv_addFieldDecorator
           split: if_splits)

lemma store_inv_queryStep:
  "store_inv (decorations this) \<Longrightarrow> store_inv (decorations (queryStep E view this node))"
  by (simp add: queryStep_def store_inv_removeQueryDecorator store_inv_addQueryDecorator
           split: prod.splits)

lemma foldl_preserves:
  assumes "\<And>s x. P s \<Longrightarrow> P (f s x)" "P s"
  shows "P (foldl f s xs)"
  using assms(2) by (induction xs arbitrary: s) (auto intro: assms(1))

lemma try_foldl_preserves:
  assumes "\<And>s x s'. P s \<Longrightarrow> f s x = Some s' \<Longrightarrow> P s'" "P s" "try_foldl f s xs = Some t"
  shows "P t"
  using assms(2,3)
proof (induction xs arbitrary: s)
  case Nil
  then show ?case by simp
next
  case (Cons x xs)
  from Cons.prems(2) obtain s' where s': "f s x = Some s'" "try_foldl f s' xs = Some t"
    by (auto split: option.splits)
  from assms(1) [OF Cons.prems(1) s'(1)] s'(2) show ?case by (rule Cons.IH)
qed

lemma store_inv_lineStep:
  fixes this :: "'v plugin"
  assumes "store_inv (decorations this)" "lineStep E view this line = Some t"
  shows "store_inv (decorations t)"
  using assms(2) unfolding lineStep_def
  by (rule try_foldl_preserves [where P = "\<lambda>t. store_inv (decorations t)", rotated 2])
     (auto intro: store_inv_fieldStep assms(1))

lemma store_inv_updateTree:
  fixes this :: "'v plugin"
  assumes "store_inv (decorations this)" "updateTree E view this = Some t"
  shows "store_inv (decorations t)"
proof -
  from assms(2) obtain this1
    where f: "try_foldl (\<lambda>t vr. try_foldl (lineStep E view) t (vlines vr)) this (visibleRanges view)
              = Some this1"
      and t: "t = (if \<not> livepreview this1 then this1
                   else foldl (\<lambda>t vr. foldl (queryStep E view) t (vnodes vr)) this1
                          (visibleRanges view))"
    by (auto simp: updateTree_def split: option.splits)
  have lines: "store_inv (decorations s')"
    if "store_inv (decorations s)" "try_foldl (lineStep E view) s ls = Some s'"
    for s s' :: "'v plugin" and ls
    using that(2)
    by (rule try_foldl_preserves [where P = "\<lambda>t. store_inv (decorations t)", rotated 2])
       (auto intro: store_inv_lineStep that(1))
  have this1: "store_inv (decorations this1)"
    using f
    by (rule try_foldl_preserves [where P = "\<lambda>t. store_inv (decorations t)", rotated 2])
       (auto intro: lines assms(1))
  have queries: "store_inv (decorations (foldl (\<lambda>t vr. foldl (queryStep E view) t (vnodes vr)) s vrs))"
    if "store_inv (decorations s)" for s :: "'v plugin" and vrs
    using that
    by (intro foldl_preserves [where P = "\<lambda>t. store_inv (decorations t)"])
       (auto intro!: foldl_preserves [where P = "\<lambda>t. store_inv (decorations t)"] store_inv_queryStep)
  show ?thesis
    unfolding t using this1 by (simp add: queries)
qed

lemma in_set_map_filter:
  "y \<in> set (List.map_filter f xs) \<longleftrightarrow> (\<exists>x \<in> set xs. f x = Some y)"
  by (induction xs) (auto simp: List.map_filter_simps split: option.splits)

lemma sorted_wrt_nths: "sorted_wrt P xs \<Longrightarrow> sorted_wrt P (nths xs I)"
  by (induction xs arbitrary: I) (auto simp: nths_Cons dest: in_set_nthsD)

lemma keep_undropped_nths: "keep_undropped dr xs = nths xs {i. \<not> dr i}"
  by (simp add: keep_undropped_def nths_def)

lemma store_inv_keep_undropped: "store_inv decos \<Longrightarrow> store_inv (keep_undropped dr decos)"
  by (simp add: store_inv_def keep_undropped_nths sorted_wrt_nths)

lemma store_inv_map_decorations:
  fixes decos :: "'v drange list"
  assumes "mono_mapPos m" "store_inv decos"
  shows "store_inv (map_decorations m dr decos)"
proof -
  have key: "replace_apart d' e'"
    if "replace_apart d e" "map_range m d = Some d'" "map_range m e = Some e'" for d e d' e' :: "'v drange"
  proof -
    { assume r: "isReplace (dvalue d)" "isReplace (dvalue e)"
      then obtain w w' where v: "dvalue d = Replace w" "dvalue e = Replace w'"
        by (cases "dvalue d"; cases "dvalue e") auto
      from that(2,3) v have d': "dfrom d' = m (dfrom d) 1" "dto d' = m (dto d) (-1)"
        and e': "dfrom e' = m (dfrom e) 1" "dto e' = m (dto e) (-1)"
        by (auto simp: map_range_def Let_def split: if_splits)
      from that(1) r have "dto d \<le> dfrom e \<or> dto e \<le> dfrom d"
        by (simp add: replace_apart_def apart_def)
      moreover have "m p (-1) \<le> m q 1" if "p \<le> q" for p q
        using assms(1) that by (simp add: mono_mapPos_def)
      ultimately have "apart d' e'"
        unfolding apart_def d' e' by blast }
    moreover have "dvalue d' = dvalue d" "dvalue e' = dvalue e"
      using that(2,3) by (auto simp: map_range_def Let_def split: if_splits)
    ultimately show ?thesis by (simp add: replace_apart_def)
  qed
  have mapped: "sorted_wrt replace_apart (List.map_filter (map_range m) xs)"
    if "sorted_wrt replace_apart xs" for xs :: "'v drange list"
    using that
    by (induction xs)
       (auto simp: List.map_filter_simps in_set_map_filter split: option.splits, blast intro: key)
  from store_inv_keep_undropped [OF assms(2), of dr] show ?thesis
    unfolding store_inv_def map_decorations_def by (rule mapped)
qed

section \<open>Mutual exclusion of replacements\<close>

lemma store_inv_constructor:
  fixes this :: "'v plugin"
  assumes "constructor E view = Some this"
  shows "store_inv (decorations this)"
proof -
  let ?s = "\<lparr>decorations = Decoration_none, livepreview = editorLivePreviewField view\<rparr> :: 'v plugin"
  have "store_inv (decorations ?s)"
    by (simp add: Decoration_none_def store_inv_Nil)
  moreover have "updateTree E view ?s = Some this"
    using assms by (simp add: constructor_def)
  ultimately show ?thesis by (rule store_inv_updateTree)
qed

lemma store_inv_update:
  assumes "store_inv (decorations this)" "docChanged u \<longrightarrow> mono_mapPos (mapPos u)"
      and "update E u this = Some t"
  shows "store_inv (decorations t)"
proof (cases "docChanged u")
  case True
  let ?s = "this\<lparr>livepreview := editorLivePreviewField (uview u),
                  decorations := map_decorations (mapPos u) (dropped u) (decorations this)\<rparr>"
  have "store_inv (decorations ?s)"
    using assms(1,2) True by (simp add: store_inv_map_decorations)
  moreover from True assms(3) have "updateTree E (uview u) ?s = Some t"
    by (simp add: update_def Let_def)
  ultimately show ?thesis by (rule store_inv_updateTree)
next
  case nd: False
  show ?thesis
  proof (cases "selectionSet u")
    case True
    let ?s = "this\<lparr>livepreview := editorLivePreviewField (uview u)\<rparr>"
    have "store_inv (decorations ?s)"
      using assms(1) by simp
    moreover from True nd assms(3) have "updateTree E (uview u) ?s = Some t"
      by (simp add: update_def Let_def)
    ultimately show ?thesis by (rule store_inv_updateTree)
  next
    case ns: False
    show ?thesis
    proof (cases "viewportChanged u")
      case True
      let ?s = "this\<lparr>livepreview := editorLivePreviewField (uview u),
                      decorations := Decoration_none\<rparr>"
      have "store_inv (decorations ?s)"
        by (simp add: Decoration_none_def store_inv_Nil)
      moreover from True nd ns assms(3) have "updateTree E (uview u) ?s = Some t"
        by (simp add: update_def Let_def)
      ultimately show ?thesis by (rule store_inv_updateTree)
    next
      case False
      with nd ns assms(3) have "t = this\<lparr>livepreview := editorLivePreviewField (uview u)\<rparr>"
        by (simp add: update_def Let_def)
      with assms(1) show ?thesis by simp
    qed
  qed
qed

lemma reachable_store_inv: "reachable E this \<Longrightarrow> store_inv (decorations this)"
  by (induction rule: reachable.induct) (auto intro: store_inv_constructor store_inv_update)

lemma sorted_wrt_filter_at_most_one:
  assumes "sorted_wrt P xs" "\<And>x y. Q x \<Longrightarrow> Q y \<Longrightarrow> \<not> P x y"
  shows "length (filter Q xs) \<le> 1"
  using assms(1)
proof (induction xs)
  case Nil
  show ?case by simp
next
  case (Cons x xs)
  show ?case
  proof (cases "Q x")
    case True
    with Cons.prems assms(2) have "\<forall>y \<in> set xs. \<not> Q y" by auto
    then have "filter Q xs = []" by (simp add: filter_empty_conv)
    with True show ?thesis by simp
  next
    case False
    with Cons show ?thesis by simp
  qed
qed

text \<open>
  C2. In every plugin state that construction and any sequence of update events reach
  (a document change discarding any ranges of the store and moving the others through
  a position mapping that preserves order), at most one Replace-decoration of the
  store covers a given non-empty span \<open>[a, b]\<close>, in particular a field span or a
  widened query span. Both insert operations look for a decoration intersecting the
  span's range first and leave the store alone when there is one.
\<close>

theorem mutual_exclusion:
  assumes "reachable E this" "a < b"
  shows "length (filter (\<lambda>d. isReplace (dvalue d) \<and> covers d a b) (decorations this)) \<le> 1
       \<and> ((\<exists>d \<in> set (decorations this). touches d (nfrom node - 1) (nto node + 1))
            \<longrightarrow> addQueryDecorator E' node view this = this)
       \<and> ((\<exists>d \<in> set (decorations this).
              touches d (lfrom line + fstart field) (lfrom line + fend field))
            \<longrightarrow> addFieldDecorator E' view line field this = Some this)"
proof -
  have "sorted_wrt replace_apart (decorations this)"
    using reachable_store_inv [OF assms(1)] by (simp add: store_inv_def)
  moreover have "\<not> replace_apart d e"
    if "isReplace (dvalue d) \<and> covers d a b" "isReplace (dvalue e) \<and> covers e a b"
    for d e :: "'b drange"
    using that assms(2) by (auto simp: replace_apart_def apart_def covers_def)
  ultimately have "length (filter (\<lambda>d. isReplace (dvalue d) \<and> covers d a b) (decorations this)) \<le> 1"
    by (rule sorted_wrt_filter_at_most_one)
  then show ?thesis
    by (simp add: addQueryDecorator_exists addFieldDecorator_exists)
qed

lemma example_run:
  "Option.bind (constructor example_env (example_view 20)) (update example_env typing_event)
   = Some typed_state"
  by code_simp

theorem mutual_exclusion_witness:
  "reachable example_env typed_state \<and> (10::int) < 14
   \<and> length (filter (\<lambda>d. isReplace (dvalue d) \<and> covers d 10 14) (decorations typed_state)) \<le> 1
   \<and> (\<exists>d \<in> set (decorations typed_state).
         touches d (nfrom (inlineCode 6 9) - 1) (nto (inlineCode 6 9) + 1))
   \<and> addQueryDecorator example_env (inlineCode 6 9) typed_view typed_state = typed_state
   \<and> (\<exists>d \<in> set (decorations typed_state).
         touches d (lfrom \<lparr>lfrom = 0, ltext = ''x`=1``=22``=3`''\<rparr>
                    + fstart \<lparr>fkey = ''k'', fvalue = ''v'', fstart = 8, fstartValue = 11,
                              fend = 12, fwrapping = None\<rparr>)
                   (lfrom \<lparr>lfrom = 0, ltext = ''x`=1``=22``=3`''\<rparr>
                    + fend \<lparr>fkey = ''k'', fvalue = ''v'', fstart = 8, fstartValue = 11,
                            fend = 12, fwrapping = None\<rparr>))
   \<and> addFieldDecorator example_env typed_view \<lparr>lfrom = 0, ltext = ''x`=1``=22``=3`''\<rparr>
        \<lparr>fkey = ''k'', fvalue = ''v'', fstart = 8, fstartValue = 11, fend = 12, fwrapping = None\<rparr>
        typed_state
      = Some typed_state"
proof -
  from example_run obtain s0 :: "string plugin"
    where c: "constructor example_env (example_view 20) = Some s0"
      and u: "update example_env typing_event s0 = Some typed_state"
    by (auto simp: bind_eq_Some_conv)
  have m: "docChanged typing_event \<longrightarrow> mono_mapPos (mapPos typing_event)"
    by (auto simp: mono_mapPos_def typing_event_def)
  have r: "reachable example_env typed_state"
    by (rule reach_update [OF reach_constructor [OF c] m u])
  have lt: "(10::int) < 14" by simp
  have t1: "\<exists>d \<in> set (decorations typed_state).
              touches d (nfrom (inlineCode 6 9) - 1) (nto (inlineCode 6 9) + 1)"
    by (simp add: typed_state_def touches_def inlineCode_def)
  have t2: "\<exists>d \<in> set (decorations typed_state).
         touches d (lfrom \<lparr>lfrom = 0, ltext = ''x`=1``=22``=3`''\<rparr>
                    + fstart \<lparr>fkey = ''k'', fvalue = ''v'', fstart = 8, fstartValue = 11,
                              fend = 12, fwrapping = None\<rparr>)
                   (lfrom \<lparr>lfrom = 0, ltext = ''x`=1``=22``=3`''\<rparr>
                    + fend \<lparr>fkey = ''k'', fvalue = ''v'', fstart = 8, fstartValue = 11,
                            fend = 12, fwrapping = None\<rparr>)"
    by (simp add: typed_state_def touches_def)
  from mutual_exclusion [OF r lt, of "inlineCode 6 9" example_env typed_view
         "\<lparr>lfrom = 0, ltext = ''x`=1``=22``=3`''\<rparr>"
         "\<lparr>fkey = ''k'', fvalue = ''v'', fstart = 8, fstartValue = 11, fend = 12, fwrapping = None\<rparr>"]
       r lt t1 t2
  show ?thesis by blast
qed

section \<open>The selection-reveal law\<close>

text \<open>
  C1 at three concrete inputs, on the line \<open>[k:: `=1`]`=2` end\<close> with an active file,
  both features enabled and the index initialized.
  \<^item> Live preview, cursor at offset 16, away from the field \<open>[0, 10]\<close>: the pass asks
    \<open>createFieldDecoratorLivePreview\<close> for the field's decoration, which is not
    implemented and returns none. After the pass the store holds the decorations of
    the two queries and nothing covers the field's span.
  \<^item> The line is opened in source-display mode, which marks the parts of the field,
    and the view then switches to live preview, cursor at offset 16. Fields and
    queries share one store: the pass finds the field's bracket mark \<open>[9, 10]\<close> where
    it looks for a decoration of the second query, over \<open>[10, 14]\<close>, and declines the
    insert. The query is recognised and is not selected, its closing backtick is
    there, and nothing covers its widened range.
  \<^item> The three-query document is opened in live preview, which conceals the first
    query by a replacement over \<open>[0, 4]\<close>, and the view then switches to
    source-display mode with the cursor at offset 2, inside that query. The pass
    returns before the queries, and the replacement remains over the selected span.
\<close>

theorem selection_reveal_violated:
  "((example_line, example_field)
       \<in> set (visitedFields example_field_env (example_field_view True 16))
    \<and> \<not> selectionAndRangeOverlap (selection (example_field_view True 16))
           (lfrom example_line + fstart example_field) (lfrom example_line + fend example_field)
    \<and> activeFile example_field_env = Some ''note.md''
    \<and> map_option (\<lambda>this. (livepreview this, map (\<lambda>d. (dfrom d, dto d)) (decorations this)))
         (constructor example_field_env (example_field_view True 16))
       = Some (True, [(5, 9), (10, 14)])
    \<and> map_option (\<lambda>this. filter (\<lambda>d. covers d (lfrom example_line + fstart example_field)
                                                (lfrom example_line + fend example_field))
                            (decorations this))
         (constructor example_field_env (example_field_view True 16))
       = Some [])
   \<and> (inlineCode 11 13 \<in> set (visitedNodes (example_field_view True 16))
    \<and> queryRenderInfo example_field_env (example_field_view True 16) (inlineCode 11 13)
       = (True, True)
    \<and> enableInlineDataview (settings example_field_env) \<and> initialized example_field_env
    \<and> sliceDoc (doc (example_field_view True 16)) 13 14 \<noteq> [CHR 0x0A]
    \<and> map_option (\<lambda>this. (livepreview this, map (\<lambda>d. (dfrom d, dto d)) (decorations this)))
         (Option.bind (constructor example_field_env (example_field_view False 16))
            (update example_field_env (selection_event (example_field_view True 16))))
       = Some (True, [(0, 1), (1, 2), (2, 4), (4, 9), (9, 10)])
    \<and> map_option (\<lambda>this. filter (\<lambda>d. covers d (nfrom (inlineCode 11 13) - 1)
                                                (nto (inlineCode 11 13) + 1))
                            (decorations this))
         (Option.bind (constructor example_field_env (example_field_view False 16))
            (update example_field_env (selection_event (example_field_view True 16))))
       = Some [])
   \<and> (inlineCode 1 3 \<in> set (visitedNodes source_view)
    \<and> queryRenderInfo example_env source_view (inlineCode 1 3) = (False, True)
    \<and> selectionAndRangeOverlap (selection source_view)
         (nfrom (inlineCode 1 3) - 1) (nto (inlineCode 1 3) + 1)
    \<and> map_option (\<lambda>this. (livepreview this,
                            map (\<lambda>d. (dfrom d, dto d))
                              (filter (\<lambda>d. isReplace (dvalue d)
                                            \<and> covers d (nfrom (inlineCode 1 3) - 1)
                                                        (nto (inlineCode 1 3) + 1))
                                 (decorations this))))
         (Option.bind (constructor example_env (example_view 20))
            (update example_env (selection_event source_view)))
       = Some (False, [(0, 4)]))"
proof -
  have a1: "(example_line, example_field)
              \<in> set (visitedFields example_field_env (example_field_view True 16))"
    by (simp add: visitedFields_def lineFields_def example_field_view_def example_field_env_def
          example_env_def example_line_def)
  have a2: "\<not> selectionAndRangeOverlap (selection (example_field_view True 16))
           (lfrom example_line + fstart example_field) (lfrom example_line + fend example_field)"
    by (simp add: example_field_view_def example_line_def example_field_def)
  have a3: "activeFile example_field_env = Some ''note.md''"
    by (simp add: example_field_env_def example_env_def)
  have a4: "map_option (\<lambda>this. (livepreview this, map (\<lambda>d. (dfrom d, dto d)) (decorations this)))
         (constructor example_field_env (example_field_view True 16))
       = Some (True, [(5, 9), (10, 14)])"
    by code_simp
  have a5: "map_option (\<lambda>this. filter (\<lambda>d. covers d (lfrom example_line + fstart example_field)
                                                (lfrom example_line + fend example_field))
                            (decorations this))
         (constructor example_field_env (example_field_view True 16))
       = Some []"
    by code_simp
  have b1: "inlineCode 11 13 \<in> set (visitedNodes (example_field_view True 16))"
    by (simp add: visitedNodes_def example_field_view_def)
  have b2: "queryRenderInfo example_field_env (example_field_view True 16) (inlineCode 11 13)
            = (True, True)"
    by code_simp
  have b3: "enableInlineDataview (settings example_field_env) \<and> initialized example_field_env"
    by (simp add: example_field_env_def example_env_def)
  have b4: "sliceDoc (doc (example_field_view True 16)) 13 14 \<noteq> [CHR 0x0A]"
    by (simp add: example_field_view_def sliceDoc_def)
  have b5: "map_option (\<lambda>this. (livepreview this, map (\<lambda>d. (dfrom d, dto d)) (decorations this)))
         (Option.bind (constructor example_field_env (example_field_view False 16))
            (update example_field_env (selection_event (example_field_view True 16))))
       = Some (True, [(0, 1), (1, 2), (2, 4), (4, 9), (9, 10)])"
    by code_simp
  have b6: "map_option (\<lambda>this. filter (\<lambda>d. covers d (nfrom (inlineCode 11 13) - 1)
                                                (nto (inlineCode 11 13) + 1))
                            (decorations this))
         (Option.bind (constructor example_field_env (example_field_view False 16))
            (update example_field_env (selection_event (example_field_view True 16))))
       = Some []"
    by code_simp
  have c1: "inlineCode 1 3 \<in> set (visitedNodes source_view)"
    by (simp add: visitedNodes_def source_view_def example_view_def)
  have c2: "queryRenderInfo example_env source_view (inlineCode 1 3) = (False, True)"
    by code_simp
  have c3: "selectionAndRangeOverlap (selection source_view)
         (nfrom (inlineCode 1 3) - 1) (nto (inlineCode 1 3) + 1)"
    by (simp add: source_view_def example_view_def inlineCode_def)
  have c4: "map_option (\<lambda>this. (livepreview this,
                            map (\<lambda>d. (dfrom d, dto d))
                              (filter (\<lambda>d. isReplace (dvalue d)
                                            \<and> covers d (nfrom (inlineCode 1 3) - 1)
                                                        (nto (inlineCode 1 3) + 1))
                                 (decorations this))))
         (Option.bind (constructor example_env (example_view 20))
            (update example_env (selection_event source_view)))
       = Some (False, [(0, 4)])"
    by code_simp
  from a1 a2 a3 a4 a5 b1 b2 b3 b4 b5 b6 c1 c2 c3 c4 show ?thesis by blast
qed

section \<open>Idempotence of reconciliation\<close>

text \<open>
  A viewport-changed event discards the store and rebuilds it from the view, so a
  second one over the same view leaves the state the first one left.
\<close>

lemma viewport_rebuild_idempotent:
  fixes this :: "'v plugin"
  assumes "viewportChanged u" "\<not> docChanged u" "\<not> selectionSet u"
      and "update E u this = Some t"
  shows "update E u t = Some t"
proof -
  have reset: "s\<lparr>livepreview := editorLivePreviewField (uview u), decorations := Decoration_none\<rparr>
        = \<lparr>decorations = Decoration_none, livepreview = editorLivePreviewField (uview u)\<rparr>"
    for s :: "'v plugin"
    by (cases s) simp
  have "update E u s
        = updateTree E (uview u)
            (s\<lparr>livepreview := editorLivePreviewField (uview u), decorations := Decoration_none\<rparr>)"
    for s :: "'v plugin"
    using assms(1-3) by (simp add: update_def Let_def)
  then have "update E u s
        = updateTree E (uview u)
            \<lparr>decorations = Decoration_none, livepreview = editorLivePreviewField (uview u)\<rparr>"
    for s :: "'v plugin"
    by (simp only: reset)
  from this [of t] this [of this] assms(4) show ?thesis by simp
qed

text \<open>
  C3 at a concrete input. The line \<open>[k:: `=1`]`=2` end\<close> is opened in source-display
  mode, where the pass marks the parts of the field; the view then switches to live
  preview with the cursor inside the second query, at offset 12. Fields and queries
  share one store: the first selection-changed pass finds the first query blocked by
  the field's value mark \<open>[4, 9]\<close> and then, revealing the second query, removes the
  bracket mark \<open>[9, 10]\<close> and with it the value mark. A second pass over the same
  document, selection and viewport finds the first query unblocked and conceals it
  over \<open>[5, 9]\<close>: the store after the second pass differs from the store after the
  first.
\<close>

theorem reconciliation_not_idempotent:
  "map_option (\<lambda>this. map (\<lambda>d. (dfrom d, dto d)) (decorations this))
     (Option.bind (constructor example_field_env (example_field_view False 12))
        (update example_field_env (selection_event (example_field_view True 12))))
   = Some [(0, 1), (1, 2), (2, 4)]
   \<and> map_option (\<lambda>this. map (\<lambda>d. (dfrom d, dto d)) (decorations this))
     (Option.bind
        (Option.bind (constructor example_field_env (example_field_view False 12))
           (update example_field_env (selection_event (example_field_view True 12))))
        (update example_field_env (selection_event (example_field_view True 12))))
   = Some [(0, 1), (1, 2), (2, 4), (5, 9)]"
proof -
  have "map_option (\<lambda>this. map (\<lambda>d. (dfrom d, dto d)) (decorations this))
     (Option.bind (constructor example_field_env (example_field_view False 12))
        (update example_field_env (selection_event (example_field_view True 12))))
   = Some [(0, 1), (1, 2), (2, 4)]"
    by code_simp
  moreover have "map_option (\<lambda>this. map (\<lambda>d. (dfrom d, dto d)) (decorations this))
     (Option.bind
        (Option.bind (constructor example_field_env (example_field_view False 12))
           (update example_field_env (selection_event (example_field_view True 12))))
        (update example_field_env (selection_event (example_field_view True 12))))
   = Some [(0, 1), (1, 2), (2, 4), (5, 9)]"
    by code_simp
  ultimately show ?thesis by simp
qed

end
